theory Spec2Isabelle
  imports Complex_Main
begin

text \<open>
  The isochrone layer and cache manager of coffee-milk-beer: the class
  \<open>IsochroneManager\<close>, the layer configuration of map-config.js and the time bands of
  config.js, as functions on an explicit state of the manager and of the map it drives.
\<close>

section \<open>JavaScript values used by the isochrone manager\<close>

text \<open>
  Coordinates are JavaScript numbers, that is IEEE 754 doubles. A finite double is
  modelled by the real number it stands for. What a numeric literal denotes and what a
  multiplication returns is the exact value rounded to the nearest double, a tie going to
  the double with the even significand: \<open>toDouble\<close>. A double has 53 significant bits, so
  the doubles between \<open>2 ^ e\<close> and \<open>2 ^ (e + 1)\<close> are the multiples of \<open>2 ^ (e - 52)\<close>;
  below \<open>2 ^ - 1022\<close> they are the multiples of \<open>2 ^ - 1074\<close>. Results of magnitude
  \<open>2 ^ 1024\<close> or more, which JavaScript makes \<open>Infinity\<close>, are outside the model; no
  coordinate in degrees, and no thousandfold of one, comes near them.
\<close>

text \<open>The number of binary digits of a natural number.\<close>

fun bitLength :: "nat \<Rightarrow> nat" where
  "bitLength n = (if n = 0 then 0 else Suc (bitLength (n div 2)))"

declare bitLength.simps [simp del]

text \<open>The exponent \<open>e\<close> with \<open>2 ^ e \<le> \<bar>x\<bar> < 2 ^ (e + 1)\<close>, for \<open>x\<close> other than zero.\<close>

definition binaryExponent :: "real \<Rightarrow> int" where
  "binaryExponent x =
     (if 1 \<le> \<bar>x\<bar> then int (bitLength (nat \<lfloor>\<bar>x\<bar>\<rfloor>)) - 1
      else - int (bitLength (nat (\<lceil>1 / \<bar>x\<bar>\<rceil> - 1))))"

text \<open>The distance between neighbouring doubles of exponent \<open>e\<close>.\<close>

definition ulp :: "int \<Rightarrow> real" where
  "ulp e = (if 52 \<le> e then 2 ^ nat (e - 52) else 1 / 2 ^ nat (52 - e))"

definition roundTiesToEven :: "real \<Rightarrow> int" where
  "roundTiesToEven q =
     (let n = \<lfloor>q\<rfloor>
      in if q - of_int n < 1 / 2 then n
         else if 1 / 2 < q - of_int n then n + 1
         else if even n then n else n + 1)"

definition toDouble :: "real \<Rightarrow> real" where
  "toDouble x =
     (if x = 0 then 0
      else (let u = ulp (max (binaryExponent x) (- 1022))
            in of_int (roundTiesToEven (x / u)) * u))"

text \<open>The operator \<open>*\<close> on two numbers.\<close>

definition double_times :: "real \<Rightarrow> real \<Rightarrow> real" where
  "double_times x y = toDouble (x * y)"

text \<open>
  \<open>Math.round\<close> returns the integer nearest to its argument, a tie going towards plus
  infinity.
\<close>

definition Math_round :: "real \<Rightarrow> int" where
  "Math_round x = \<lfloor>x + 1 / 2\<rfloor>"

text \<open>
  Template literals format an integer of magnitude below \<open>10 ^ 21\<close> in decimal:
  \<open>`${5}`\<close> is \<open>5\<close>, \<open>`${-70257}`\<close> is \<open>-70257\<close>. (From \<open>10 ^ 21\<close> on JavaScript
  writes an exponent; the thousandfold of a coordinate of magnitude up to \<open>10 ^ 17\<close>
  stays below.)
\<close>

definition digit :: "nat \<Rightarrow> char" where
  "digit d = ''0123456789'' ! d"

fun show_nat :: "nat \<Rightarrow> string" where
  "show_nat n = (if n < 10 then [digit n] else show_nat (n div 10) @ [digit (n mod 10)])"

declare show_nat.simps [simp del]

definition show_int :: "int \<Rightarrow> string" where
  "show_int i = (if i < 0 then CHR ''-'' # show_nat (nat (- i)) else show_nat (nat i))"

text \<open>
  \<open>String.prototype.replace\<close> with a string pattern replaces the first occurrence only.
\<close>

fun String_replace :: "string \<Rightarrow> string \<Rightarrow> string \<Rightarrow> string" where
  "String_replace pat rep [] = (if pat = [] then rep else [])"
| "String_replace pat rep (c # cs) =
     (if take (length pat) (c # cs) = pat then rep @ drop (length pat) (c # cs)
      else c # String_replace pat rep cs)"

text \<open>
  What the JavaScript host gives and this repository does not define: the formatting of a
  number that is not an integer (\<open>`${location.lat}`\<close>) and \<open>window.location.origin\<close>.
\<close>

record host =
  numToString :: "real \<Rightarrow> string"
  origin :: string

record location =
  lat :: real
  lng :: real

text \<open>
  A property read \<open>colors[key]\<close> on an object literal finds the literal's own property,
  or else a member inherited from \<open>Object.prototype\<close>, or else \<open>undefined\<close>.
\<close>

datatype 'a property = Own 'a | Inherited string | Undefined

definition objectPrototypeKeys :: "string list" where
  "objectPrototypeKeys =
     [''constructor'', ''hasOwnProperty'', ''isPrototypeOf'', ''propertyIsEnumerable'',
      ''toLocaleString'', ''toString'', ''valueOf'', ''__proto__'',
      ''__defineGetter__'', ''__defineSetter__'', ''__lookupGetter__'', ''__lookupSetter__'']"

definition getProperty :: "(string \<times> 'a) list \<Rightarrow> string \<Rightarrow> 'a property" where
  "getProperty obj key =
     (case map_of obj key of
        Some v \<Rightarrow> Own v
      | None \<Rightarrow> if key \<in> set objectPrototypeKeys then Inherited key else Undefined)"

text \<open>A paint value is a colour string or, through the prototype chain, a member of
  \<open>Object.prototype\<close> (a function or an object, never a colour).\<close>

datatype paint_value = Color string | PrototypeMember string

section \<open>config.js\<close>

definition timeIntervals :: "nat list" where
  "timeIntervals = [5, 10, 15]"

section \<open>map-config.js\<close>

record layer_config =
  layer_id :: string
  layer_type :: string
  fill_color :: "string option"
  fill_opacity :: real
  fill_outline_color :: paint_value
  filter_time :: nat
  source :: "string option"
  source_layer :: "string option"

definition fillColors :: "(string \<times> (nat \<times> string) list) list" where
  "fillColors =
     [(''coffee'', [(5, ''rgba(146, 64, 14, 0.3)''), (10, ''rgba(146, 64, 14, 0.5)''),
                    (15, ''rgba(146, 64, 14, 0.7)'')]),
      (''bar'', [(5, ''rgba(220, 38, 38, 0.3)''), (10, ''rgba(220, 38, 38, 0.5)''),
                 (15, ''rgba(220, 38, 38, 0.7)'')]),
      (''grocery'', [(5, ''rgba(254, 243, 199, 0.3)''), (10, ''rgba(254, 243, 199, 0.5)''),
                     (15, ''rgba(254, 243, 199, 0.7)'')])]"

definition outlineColors :: "(string \<times> string) list" where
  "outlineColors = [(''coffee'', ''#92400e''), (''bar'', ''#dc2626''), (''grocery'', ''#fbbf24'')]"

text \<open>
  \<open>colors.coffee[timeInterval]\<close>: the entry of the coffee table, \<open>undefined\<close> (here
  \<open>None\<close>) for a band the table does not have.
\<close>

definition coffeeFill :: "(string \<times> (nat \<times> string) list) list \<Rightarrow> nat \<Rightarrow> string option" where
  "coffeeFill colors timeInterval =
     (case map_of colors ''coffee'' of Some t \<Rightarrow> map_of t timeInterval | None \<Rightarrow> None)"

text \<open>
  \<open>colors[poiType]?.[timeInterval] || colors.coffee[timeInterval]\<close>. An inherited member
  has no property named by a number, and the empty string is falsy.
\<close>

definition getIsochroneColor :: "string \<Rightarrow> nat \<Rightarrow> string option" where
  "getIsochroneColor poiType timeInterval =
     (case getProperty fillColors poiType of
        Own t \<Rightarrow>
          (case map_of t timeInterval of
             Some c \<Rightarrow> if c \<noteq> [] then Some c else coffeeFill fillColors timeInterval
           | None \<Rightarrow> coffeeFill fillColors timeInterval)
      | Inherited k \<Rightarrow> coffeeFill fillColors timeInterval
      | Undefined \<Rightarrow> coffeeFill fillColors timeInterval)"

text \<open>\<open>colors[poiType] || colors.coffee\<close>: an inherited member is truthy and is returned.\<close>

definition getIsochroneOutlineColor :: "string \<Rightarrow> nat \<Rightarrow> paint_value" where
  "getIsochroneOutlineColor poiType timeInterval =
     (case getProperty outlineColors poiType of
        Own c \<Rightarrow> if c \<noteq> [] then Color c else Color (the (map_of outlineColors ''coffee''))
      | Inherited k \<Rightarrow> PrototypeMember k
      | Undefined \<Rightarrow> Color (the (map_of outlineColors ''coffee'')))"

definition createLayerConfig :: "string \<Rightarrow> nat \<Rightarrow> layer_config" where
  "createLayerConfig poiType timeInterval =
     \<lparr>layer_id = poiType @ ''-isochrone-'' @ show_nat timeInterval,
      layer_type = ''fill'',
      fill_color = getIsochroneColor poiType timeInterval,
      fill_opacity = 6 / 10,
      fill_outline_color = getIsochroneOutlineColor poiType timeInterval,
      filter_time = timeInterval,
      source = None,
      source_layer = None\<rparr>"

section \<open>The rendering engine\<close>

text \<open>
  The map object is the rendering engine's, not this repository's. Its state is the list
  of registered sources (identifier and URL, in the order of registration) and the list of
  layers. Whether \<open>addSource\<close> or \<open>addLayer\<close> throws, and which \<open>sourcedata\<close> events the
  engine delivers to a listener before the listener's 10-second timer fires, is given by
  the environment of the call, so that a property proved for every environment holds
  however the engine behaves.
\<close>

record renderer =
  sources :: "(string \<times> string) list"
  layers :: "layer_config list"

record source_event =
  sourceId :: string
  isSourceLoaded :: bool

record env =
  addSourceThrows :: "string \<Rightarrow> bool"
  events :: "source_event list"
  addLayerThrows :: "layer_config \<Rightarrow> bool"

datatype error = TypeError | RendererError | SourceLoadTimeout

definition getSource :: "renderer \<Rightarrow> string \<Rightarrow> bool" where
  "getSource r sid = (sid \<in> fst ` set (sources r))"

definition addSource :: "env \<Rightarrow> string \<Rightarrow> string \<Rightarrow> renderer \<Rightarrow> error + renderer" where
  "addSource e sid url r =
     (if addSourceThrows e sid then Inl RendererError
      else Inr (r\<lparr>sources := sources r @ [(sid, url)]\<rparr>))"

definition getLayer :: "renderer \<Rightarrow> string \<Rightarrow> bool" where
  "getLayer r lid = (lid \<in> layer_id ` set (layers r))"

text \<open>Adding a layer whose identifier is taken leaves the existing layer in place.\<close>

definition addLayer :: "env \<Rightarrow> layer_config \<Rightarrow> renderer \<Rightarrow> error + renderer" where
  "addLayer e cfg r =
     (if addLayerThrows e cfg then Inl RendererError
      else if getLayer r (layer_id cfg) then Inr r
      else Inr (r\<lparr>layers := layers r @ [cfg]\<rparr>))"

definition removeLayer :: "string \<Rightarrow> renderer \<Rightarrow> renderer" where
  "removeLayer lid r = r\<lparr>layers := filter (\<lambda>c. layer_id c \<noteq> lid) (layers r)\<rparr>"

section \<open>IsochroneManager\<close>

record feature =
  properties_time :: "nat option"
  properties_duration :: "nat option"

record descriptor =
  descriptor_type :: string
  features :: "feature list option"
  poi_type :: string
  descriptor_location :: location
  time_intervals :: "nat list"

record manager =
  map' :: renderer
  isochroneData :: "string \<rightharpoonup> descriptor"
  activeLayers :: "string set"
  currentLocation :: "location option"
  pmtilesSources :: "string \<rightharpoonup> string"

definition constructor :: "renderer \<Rightarrow> manager" where
  "constructor r =
     \<lparr>map' = r, isochroneData = Map.empty, activeLayers = {}, currentLocation = None,
      pmtilesSources = Map.empty\<rparr>"

text \<open>
  The source identifier \<open>`isochrones-${poiType}-${Math.round(location.lat * 1000)}-...`\<close>
  of \<open>initializePMTilesSource\<close> (the source key), and the two rounded coordinates it is
  built from.
\<close>

definition quantize :: "location \<Rightarrow> int \<times> int" where
  "quantize l =
     (Math_round (double_times (lat l) 1000), Math_round (double_times (lng l) 1000))"

definition sourceKey :: "string \<Rightarrow> location \<Rightarrow> string" where
  "sourceKey poiType l =
     ''isochrones-'' @ poiType @ ''-'' @ show_int (Math_round (double_times (lat l) 1000)) @
       ''-'' @ show_int (Math_round (double_times (lng l) 1000))"

definition getPMTilesFileName :: "string \<Rightarrow> location \<Rightarrow> string" where
  "getPMTilesFileName poiType l =
     (let la = Math_round (double_times (lat l) 1000);
          ln = Math_round (double_times (lng l) 1000)
      in if 43600 \<le> la \<and> la \<le> 43700 \<and> - 70250 \<le> ln \<and> ln \<le> - 70200
         then poiType @ ''_Portland_ME_isochrones.pmtiles''
         else poiType @ ''_Portland_ME_isochrones.pmtiles'')"

text \<open>
  The promise \<open>initializePMTilesSource\<close> returns: already resolved (the source was
  registered), rejected (\<open>addSource\<close> threw), or waiting for a \<open>sourcedata\<close> event of the
  source or for the timer.
\<close>

datatype promise = Resolved | Rejected error | Waiting string

definition sourceUrl :: "host \<Rightarrow> string \<Rightarrow> location \<Rightarrow> string" where
  "sourceUrl h poiType l =
     (let pmtilesFile = getPMTilesFileName poiType l;
          pmtilesUrl = origin h @ ''/pmtiles/'' @ pmtilesFile
      in ''pmtiles://'' @ pmtilesUrl)"

definition initializePMTilesSource ::
  "host \<Rightarrow> env \<Rightarrow> string \<Rightarrow> location \<Rightarrow> manager \<Rightarrow> promise \<times> manager" where
  "initializePMTilesSource h e poiType l m =
     (let sid = sourceKey poiType l
      in if getSource (map' m) sid
         then (Resolved, m\<lparr>pmtilesSources := (pmtilesSources m)(poiType \<mapsto> sid)\<rparr>)
         else
           (case addSource e sid (sourceUrl h poiType l) (map' m) of
              Inl err \<Rightarrow> (Rejected err, m)
            | Inr r \<Rightarrow>
                (Waiting sid,
                 m\<lparr>map' := r, pmtilesSources := (pmtilesSources m)(poiType \<mapsto> sid)\<rparr>)))"

text \<open>
  How the promise settles: a waiting promise resolves when one of the events delivered
  before the timer names the source and reports it loaded; otherwise the timer rejects it.
\<close>

definition sourceLoaded :: "env \<Rightarrow> string \<Rightarrow> bool" where
  "sourceLoaded e sid = list_ex (\<lambda>ev. sourceId ev = sid \<and> isSourceLoaded ev) (events e)"

definition settle :: "env \<Rightarrow> promise \<Rightarrow> error + unit" where
  "settle e p =
     (case p of
        Resolved \<Rightarrow> Inr ()
      | Rejected err \<Rightarrow> Inl err
      | Waiting sid \<Rightarrow> if sourceLoaded e sid then Inr () else Inl SourceLoadTimeout)"

definition cacheKey :: "host \<Rightarrow> string \<Rightarrow> location \<Rightarrow> string" where
  "cacheKey h poiType l =
     poiType @ ''-'' @ numToString h (lat l) @ ''-'' @ numToString h (lng l)"

definition createMockIsochroneData :: "string \<Rightarrow> location \<Rightarrow> descriptor" where
  "createMockIsochroneData poiType l =
     \<lparr>descriptor_type = ''FeatureCollection'', features = Some [], poi_type = poiType,
      descriptor_location = l, time_intervals = timeIntervals\<rparr>"

text \<open>
  \<open>loadIsochrones\<close> is an async function. It runs without interruption up to its
  \<open>await\<close> (\<open>loadIsochrones_begin\<close>), is suspended there, and runs from the settled
  promise to its return (\<open>loadIsochrones_resume\<close>). On a cache hit it returns before the
  \<open>await\<close>.
\<close>

datatype suspended = Returned "descriptor option" | Awaiting string string location promise

definition loadIsochrones_begin ::
  "host \<Rightarrow> env \<Rightarrow> location \<Rightarrow> string \<Rightarrow> manager \<Rightarrow> suspended \<times> manager" where
  "loadIsochrones_begin h e l poiType m =
     (let key = cacheKey h poiType l;
          m1 = m\<lparr>currentLocation := Some l\<rparr>
      in case isochroneData m1 key of
           Some d \<Rightarrow> (Returned (Some d), m1)
         | None \<Rightarrow>
             (case initializePMTilesSource h e poiType l m1 of
                (p, m2) \<Rightarrow> (Awaiting key poiType l p, m2)))"

definition loadIsochrones_resume ::
  "env \<Rightarrow> suspended \<Rightarrow> manager \<Rightarrow> descriptor option \<times> manager" where
  "loadIsochrones_resume e s m =
     (case s of
        Returned r \<Rightarrow> (r, m)
      | Awaiting key poiType l p \<Rightarrow>
          (case settle e p of
             Inr u \<Rightarrow>
               (let mockData = createMockIsochroneData poiType l
                in (Some mockData, m\<lparr>isochroneData := (isochroneData m)(key \<mapsto> mockData)\<rparr>))
           | Inl err \<Rightarrow> (None, m)))"

text \<open>One call of \<open>loadIsochrones\<close> with nothing else running in between.\<close>

definition loadIsochrones ::
  "host \<Rightarrow> env \<Rightarrow> location \<Rightarrow> string \<Rightarrow> manager \<Rightarrow> descriptor option \<times> manager" where
  "loadIsochrones h e l poiType m =
     (case loadIsochrones_begin h e l poiType m of (s, m1) \<Rightarrow> loadIsochrones_resume e s m1)"

text \<open>
  Two calls issued together, as \<open>generateAllIsochrones\<close> issues one per active category
  under \<open>Promise.all\<close>: both run to their \<open>await\<close> in the order of the calls, then each
  resumes when its promise settles. \<open>firstSettlesFirst\<close> is the order of settling.
\<close>

definition loadIsochronesConcurrently ::
  "host \<Rightarrow> location \<Rightarrow> string \<times> env \<Rightarrow> string \<times> env \<Rightarrow> bool \<Rightarrow> manager \<Rightarrow>
     (descriptor option \<times> descriptor option) \<times> manager" where
  "loadIsochronesConcurrently h l c1 c2 firstSettlesFirst m =
     (case loadIsochrones_begin h (snd c1) l (fst c1) m of
        (s1, ma) \<Rightarrow>
          (case loadIsochrones_begin h (snd c2) l (fst c2) ma of
             (s2, mb) \<Rightarrow>
               if firstSettlesFirst
               then (case loadIsochrones_resume (snd c1) s1 mb of
                       (r1, mc) \<Rightarrow>
                         (case loadIsochrones_resume (snd c2) s2 mc of
                            (r2, md) \<Rightarrow> ((r1, r2), md)))
               else (case loadIsochrones_resume (snd c2) s2 mb of
                       (r2, mc) \<Rightarrow>
                         (case loadIsochrones_resume (snd c1) s1 mc of
                            (r1, md) \<Rightarrow> ((r1, r2), md)))))"

text \<open>The manager's own copies of the two colour lookups (used by \<open>updateIsochroneColors\<close>).\<close>

definition IsochroneManager_fillColors :: "(string \<times> (nat \<times> string) list) list" where
  "IsochroneManager_fillColors =
     [(''coffee'', [(5, ''rgba(146, 64, 14, 0.3)''), (10, ''rgba(146, 64, 14, 0.5)''),
                    (15, ''rgba(146, 64, 14, 0.7)'')]),
      (''bar'', [(5, ''rgba(220, 38, 38, 0.3)''), (10, ''rgba(220, 38, 38, 0.5)''),
                 (15, ''rgba(220, 38, 38, 0.7)'')]),
      (''grocery'', [(5, ''rgba(254, 243, 199, 0.3)''), (10, ''rgba(254, 243, 199, 0.5)''),
                     (15, ''rgba(254, 243, 199, 0.7)'')])]"

definition IsochroneManager_outlineColors :: "(string \<times> string) list" where
  "IsochroneManager_outlineColors =
     [(''coffee'', ''#92400e''), (''bar'', ''#dc2626''), (''grocery'', ''#fbbf24'')]"

definition IsochroneManager_getIsochroneColor :: "string \<Rightarrow> nat \<Rightarrow> string option" where
  "IsochroneManager_getIsochroneColor poiType timeInterval =
     (case getProperty IsochroneManager_fillColors poiType of
        Own t \<Rightarrow>
          (case map_of t timeInterval of
             Some c \<Rightarrow>
               if c \<noteq> [] then Some c else coffeeFill IsochroneManager_fillColors timeInterval
           | None \<Rightarrow> coffeeFill IsochroneManager_fillColors timeInterval)
      | Inherited k \<Rightarrow> coffeeFill IsochroneManager_fillColors timeInterval
      | Undefined \<Rightarrow> coffeeFill IsochroneManager_fillColors timeInterval)"

definition IsochroneManager_getIsochroneOutlineColor :: "string \<Rightarrow> nat \<Rightarrow> paint_value" where
  "IsochroneManager_getIsochroneOutlineColor poiType timeInterval =
     (case getProperty IsochroneManager_outlineColors poiType of
        Own c \<Rightarrow>
          if c \<noteq> [] then Color c
          else Color (the (map_of IsochroneManager_outlineColors ''coffee''))
      | Inherited k \<Rightarrow> PrototypeMember k
      | Undefined \<Rightarrow> Color (the (map_of IsochroneManager_outlineColors ''coffee'')))"

definition layerId :: "string \<Rightarrow> nat \<Rightarrow> string" where
  "layerId poiType time = poiType @ ''-isochrone-'' @ show_nat time"

text \<open>
  The body of the \<open>forEach\<close> callback of \<open>addIsochroneLayers\<close>. Reading \<open>.lat\<close> of a null
  \<open>currentLocation\<close> throws a TypeError outside the inner \<open>try\<close>; a throw of \<open>addLayer\<close>
  is caught by the inner \<open>try\<close> and the callback returns normally.
\<close>

definition addLayerFor :: "env \<Rightarrow> string \<Rightarrow> string \<Rightarrow> nat \<Rightarrow> manager \<Rightarrow> error + manager" where
  "addLayerFor e poiType pmtilesSource time m =
     (let lid = layerId poiType time;
          layerConfig = (createLayerConfig poiType time)\<lparr>source := Some pmtilesSource\<rparr>
      in case currentLocation m of
           None \<Rightarrow> Inl TypeError
         | Some l \<Rightarrow>
             (let pmtilesFile = getPMTilesFileName poiType l;
                  sourceLayerName = String_replace ''.pmtiles'' [] pmtilesFile;
                  layerConfig = layerConfig\<lparr>source_layer := Some sourceLayerName\<rparr>
              in case addLayer e layerConfig (map' m) of
                   Inl layerError \<Rightarrow> Inr m
                 | Inr r \<Rightarrow> Inr (m\<lparr>map' := r, activeLayers := insert lid (activeLayers m)\<rparr>)))"

text \<open>\<open>forEach\<close> stops at the first callback that throws.\<close>

fun forEach_addLayer ::
  "env \<Rightarrow> string \<Rightarrow> string \<Rightarrow> nat list \<Rightarrow> manager \<Rightarrow> error option \<times> manager" where
  "forEach_addLayer e poiType src [] m = (None, m)"
| "forEach_addLayer e poiType src (t # ts) m =
     (case addLayerFor e poiType src t m of
        Inl err \<Rightarrow> (Some err, m)
      | Inr m1 \<Rightarrow> forEach_addLayer e poiType src ts m1)"

text \<open>The outer \<open>try\<close> catches what the \<open>forEach\<close> throws; the empty string is falsy.\<close>

definition addIsochroneLayers :: "env \<Rightarrow> string \<Rightarrow> descriptor \<Rightarrow> manager \<Rightarrow> manager" where
  "addIsochroneLayers e poiType data m =
     (case pmtilesSources m poiType of
        None \<Rightarrow> m
      | Some pmtilesSource \<Rightarrow>
          if pmtilesSource = [] then m
          else snd (forEach_addLayer e poiType pmtilesSource timeIntervals m))"

definition removeLayerFor :: "string \<Rightarrow> manager \<Rightarrow> nat \<Rightarrow> manager" where
  "removeLayerFor poiType m time =
     (let lid = layerId poiType time
      in if getLayer (map' m) lid
         then m\<lparr>map' := removeLayer lid (map' m), activeLayers := activeLayers m - {lid}\<rparr>
         else m)"

definition removeIsochroneLayers :: "string \<Rightarrow> manager \<Rightarrow> manager" where
  "removeIsochroneLayers poiType m = foldl (removeLayerFor poiType) m timeIntervals"

definition clearAll :: "manager \<Rightarrow> manager" where
  "clearAll m =
     m\<lparr>isochroneData := Map.empty,
       map' := (map' m)\<lparr>layers := filter (\<lambda>c. layer_id c \<notin> activeLayers m) (layers (map' m))\<rparr>,
       activeLayers := {}\<rparr>"

record stats =
  total :: nat
  byTime :: "nat \<rightharpoonup> nat"

text \<open>\<open>`${poiType}-${this.currentLocation?.lat}-${this.currentLocation?.lng}`\<close>\<close>

definition statsKey :: "host \<Rightarrow> string \<Rightarrow> location option \<Rightarrow> string" where
  "statsKey h poiType cl =
     poiType @ ''-'' @ (case cl of None \<Rightarrow> ''undefined'' | Some l \<Rightarrow> numToString h (lat l)) @
       ''-'' @ (case cl of None \<Rightarrow> ''undefined'' | Some l \<Rightarrow> numToString h (lng l))"

text \<open>\<open>f.properties.time || f.properties.duration\<close>: zero and \<open>undefined\<close> are falsy.\<close>

definition timeOrDuration :: "feature \<Rightarrow> nat option" where
  "timeOrDuration f =
     (case properties_time f of
        Some n \<Rightarrow> if n \<noteq> 0 then Some n else properties_duration f
      | None \<Rightarrow> properties_duration f)"

text \<open>The statistics computed from the looked-up cache entry.\<close>

definition statsOf :: "descriptor option \<Rightarrow> stats option" where
  "statsOf entry =
     (case entry of
        None \<Rightarrow> None
      | Some data \<Rightarrow>
          (case features data of
             None \<Rightarrow> None
           | Some fs \<Rightarrow>
               Some \<lparr>total = length fs,
                     byTime =
                       foldl (\<lambda>bt time. bt(time \<mapsto> length (filter (\<lambda>f. timeOrDuration f = Some time) fs)))
                         Map.empty timeIntervals\<rparr>))"

definition getStatistics :: "host \<Rightarrow> string \<Rightarrow> manager \<Rightarrow> stats option" where
  "getStatistics h poiType m = statsOf (isochroneData m (statsKey h poiType (currentLocation m)))"

definition setCurrentLocation :: "location option \<Rightarrow> manager \<Rightarrow> manager" where
  "setCurrentLocation l m = m\<lparr>currentLocation := l\<rparr>"

text \<open>\<open>generateIsochrones\<close> of main.js: load, and add the layers when the load gave a
  descriptor (its updates of the page are left out).\<close>

definition generateIsochrones :: "host \<Rightarrow> env \<Rightarrow> location \<Rightarrow> string \<Rightarrow> manager \<Rightarrow> manager" where
  "generateIsochrones h e l poiType m =
     (case loadIsochrones h e l poiType m of
        (None, m1) \<Rightarrow> m1
      | (Some data, m1) \<Rightarrow> addIsochroneLayers e poiType data m1)"

section \<open>Notions used to state the properties\<close>

definition isDigit :: "char \<Rightarrow> bool" where
  "isDigit ch = (ch \<in> set ''0123456789'')"

text \<open>The configuration passed to \<open>addLayer\<close> for a band, once \<open>addIsochroneLayers\<close> has
  set its source and its source layer.\<close>

definition builtLayerConfig :: "string \<Rightarrow> string \<Rightarrow> location \<Rightarrow> nat \<Rightarrow> layer_config" where
  "builtLayerConfig poiType pmtilesSource l time =
     (createLayerConfig poiType time)
       \<lparr>source := Some pmtilesSource,
        source_layer := Some (String_replace ''.pmtiles'' [] (getPMTilesFileName poiType l))\<rparr>"

text \<open>The layer identifiers of a category, one per configured band.\<close>

definition layerIds :: "string \<Rightarrow> string set" where
  "layerIds poiType = layerId poiType ` set timeIntervals"

text \<open>Every layer the manager tracks as active is a layer of the map.\<close>

definition consistent :: "manager \<Rightarrow> bool" where
  "consistent m = (activeLayers m \<subseteq> layer_id ` set (layers (map' m)))"

text \<open>A (category, band) pair the fill table has an entry for.\<close>

definition recognized :: "string \<Rightarrow> nat \<Rightarrow> bool" where
  "recognized poiType timeInterval =
     (case map_of fillColors poiType of
        Some t \<Rightarrow> map_of t timeInterval \<noteq> None
      | None \<Rightarrow> False)"

text \<open>The identifiers of the layers of the map.\<close>

definition layerIdsOf :: "renderer \<Rightarrow> string set" where
  "layerIdsOf r = layer_id ` set (layers r)"

text \<open>The bands whose layer the rendering engine accepts, and their layer identifiers.\<close>

definition acceptedBands :: "env \<Rightarrow> string \<Rightarrow> string \<Rightarrow> location \<Rightarrow> nat list \<Rightarrow> nat list" where
  "acceptedBands e poiType pmtilesSource l ts =
     filter (\<lambda>t. \<not> addLayerThrows e (builtLayerConfig poiType pmtilesSource l t)) ts"

definition acceptedIds :: "env \<Rightarrow> string \<Rightarrow> string \<Rightarrow> location \<Rightarrow> nat list \<Rightarrow> string set" where
  "acceptedIds e poiType pmtilesSource l ts =
     layerId poiType ` set (acceptedBands e poiType pmtilesSource l ts)"

text \<open>
  What the host's formatting of a coordinate (\<open>`${location.lat}`\<close>) is taken to satisfy.
  The text JavaScript gives for a number is not empty, does not end with the exponent mark
  \<open>e\<close>, and has a minus sign only as its first character or right after the exponent
  mark; and two different numbers have different texts. \<open>formatsLikeJavaScript h xs\<close>
  says so of the host \<open>h\<close> for the numbers in \<open>xs\<close>.
\<close>

fun minusAfterE :: "string \<Rightarrow> bool" where
  "minusAfterE (a # b # s) = ((b = CHR ''-'' \<longrightarrow> a = CHR ''e'') \<and> minusAfterE (b # s))"
| "minusAfterE s = True"

definition numberText :: "string \<Rightarrow> bool" where
  "numberText s = (s \<noteq> [] \<and> last s \<noteq> CHR ''e'' \<and> minusAfterE s)"

definition formatsLikeJavaScript :: "host \<Rightarrow> real list \<Rightarrow> bool" where
  "formatsLikeJavaScript h xs =
     list_all (\<lambda>x. numberText (numToString h x) \<and>
                    list_all (\<lambda>y. numToString h x = numToString h y \<longrightarrow> x = y) xs) xs"

section \<open>Sample values\<close>

text \<open>
  The default centre of the map (Portland, Maine), as the literals of config.js denote it;
  a location some twenty metres from it, one sixty metres from it across a rounding
  boundary, and one two hundred metres north; two locations some thirty metres apart, of
  which the first has both thousandfolds on a tie in double arithmetic (43.6005 gives
  43600.5 and -70.2565 gives -70256.5, where the exact products of the doubles with 1000
  lie just below); a host that formats these coordinates as JavaScript does; a map with
  nothing registered; and two behaviours of the rendering engine: one that reports every
  sample source loaded and accepts every layer, and one that never reports a source
  loaded.
\<close>

definition portland :: location where
  "portland = \<lparr>lat = toDouble 43.6591, lng = toDouble (- 70.2568)\<rparr>"

definition nearby :: location where
  "nearby = \<lparr>lat = toDouble 43.6593, lng = toDouble (- 70.2570)\<rparr>"

definition harbour :: location where
  "harbour = \<lparr>lat = toDouble 43.6597, lng = toDouble (- 70.2564)\<rparr>"

definition uptown :: location where
  "uptown = \<lparr>lat = toDouble 43.6611, lng = toDouble (- 70.2568)\<rparr>"

definition onTheTie :: location where
  "onTheTie = \<lparr>lat = toDouble 43.6005, lng = toDouble (- 70.2565)\<rparr>"

definition belowTheTie :: location where
  "belowTheTie = \<lparr>lat = toDouble 43.6004, lng = toDouble (- 70.2568)\<rparr>"

definition browser :: host where
  "browser =
     \<lparr>numToString =
        (\<lambda>x. case map_of
                    [(toDouble 43.6591, ''43.6591''), (toDouble (- 70.2568), ''-70.2568''),
                     (toDouble 43.6593, ''43.6593''), (toDouble (- 70.2570), ''-70.257''),
                     (toDouble 43.6597, ''43.6597''), (toDouble (- 70.2564), ''-70.2564''),
                     (toDouble 43.6611, ''43.6611''), (toDouble 43.6005, ''43.6005''),
                     (toDouble 43.6004, ''43.6004''), (toDouble (- 70.2565), ''-70.2565'')] x of
               Some s \<Rightarrow> s
             | None \<Rightarrow> ''0''),
      origin = ''http://localhost:5173''\<rparr>"

definition emptyMap :: renderer where
  "emptyMap = \<lparr>sources = [], layers = []\<rparr>"

definition loadsInTime :: env where
  "loadsInTime =
     \<lparr>addSourceThrows = (\<lambda>sid. False),
      events =
        [\<lparr>sourceId = ''isochrones-coffee-43659--70257'', isSourceLoaded = False\<rparr>,
         \<lparr>sourceId = ''isochrones-coffee-43659--70257'', isSourceLoaded = True\<rparr>,
         \<lparr>sourceId = ''isochrones-bar-43659--70257'', isSourceLoaded = True\<rparr>,
         \<lparr>sourceId = ''isochrones-grocery-43659--70257'', isSourceLoaded = True\<rparr>],
      addLayerThrows = (\<lambda>cfg. False)\<rparr>"

definition neverLoads :: env where
  "neverLoads =
     \<lparr>addSourceThrows = (\<lambda>sid. False), events = [], addLayerThrows = (\<lambda>cfg. False)\<rparr>"

text \<open>A rendering engine that rejects the 10-minute coffee layer, and the manager after the
  coffee isochrones, then those of all three categories, were generated at Portland.\<close>

definition rejectsTen :: env where
  "rejectsTen =
     \<lparr>addSourceThrows = (\<lambda>sid. False), events = [],
      addLayerThrows = (\<lambda>cfg. layer_id cfg = ''coffee-isochrone-10'')\<rparr>"

definition coffeeShown :: manager where
  "coffeeShown = generateIsochrones browser loadsInTime portland ''coffee'' (constructor emptyMap)"

definition allShown :: manager where
  "allShown =
     generateIsochrones browser loadsInTime portland ''grocery''
       (generateIsochrones browser loadsInTime portland ''bar'' coffeeShown)"

section \<open>Decimal strings\<close>

lemma isDigit_digit: "d < 10 \<Longrightarrow> isDigit (digit d)"
proof -
  assume "d < 10"
  then have "d \<in> {0, 1, 2, 3, 4, 5, 6, 7, 8, 9}" by auto
  then show ?thesis by (auto simp add: isDigit_def digit_def)
qed

lemma show_nat_digits: "show_nat n \<noteq> [] \<and> (\<forall>ch \<in> set (show_nat n). isDigit ch)"
proof (induction n rule: show_nat.induct)
  case (1 n)
  show ?case
  proof (cases "n < 10")
    case True
    then show ?thesis by (simp add: show_nat.simps [of n] isDigit_digit)
  next
    case False
    then show ?thesis using 1 by (simp add: show_nat.simps [of n] isDigit_digit)
  qed
qed

lemma digit_inj: "a < 10 \<Longrightarrow> b < 10 \<Longrightarrow> digit a = digit b \<Longrightarrow> a = b"
proof -
  assume "a < 10" "b < 10" and eq: "digit a = digit b"
  then have "a \<in> {0, 1, 2, 3, 4, 5, 6, 7, 8, 9}" "b \<in> {0, 1, 2, 3, 4, 5, 6, 7, 8, 9}" by auto
  with eq show ?thesis by (auto simp add: digit_def)
qed

lemma show_nat_inj: "show_nat a = show_nat b \<Longrightarrow> a = b"
proof (induction a arbitrary: b rule: show_nat.induct)
  case (1 a)
  show ?case
  proof (cases "a < 10")
    case True
    have "b < 10"
    proof (rule ccontr)
      assume "\<not> b < 10"
      then have "length (show_nat b) \<ge> 2"
        using show_nat_digits [of "b div 10"] by (cases "show_nat (b div 10)") (simp_all add: show_nat.simps [of b])
      moreover have "length (show_nat a) = 1" using True by (simp add: show_nat.simps [of a])
      ultimately show False using 1(2) by simp
    qed
    with True 1(2) show ?thesis
      by (simp add: show_nat.simps [of a] show_nat.simps [of b] digit_inj)
  next
    case False
    have nb: "\<not> b < 10"
    proof
      assume "b < 10"
      then have "length (show_nat b) = 1" by (simp add: show_nat.simps [of b])
      moreover have "length (show_nat a) \<ge> 2"
        using False show_nat_digits [of "a div 10"] by (cases "show_nat (a div 10)") (simp_all add: show_nat.simps [of a])
      ultimately show False using 1(2) by simp
    qed
    from False nb 1(2) have "show_nat (a div 10) = show_nat (b div 10)" and "digit (a mod 10) = digit (b mod 10)"
      by (simp_all add: show_nat.simps [of a] show_nat.simps [of b])
    then have "a div 10 = b div 10" and "a mod 10 = b mod 10"
      using 1(1) [OF False] by (simp_all add: digit_inj)
    then show ?thesis by (metis div_mult_mod_eq)
  qed
qed

text \<open>A string that ends in digits after a character that is no digit determines both parts.\<close>

lemma digits_suffix_unique:
  assumes "xs @ sep # ds = xs' @ sep # ds'"
    and "\<not> isDigit sep" and "\<forall>ch \<in> set ds. isDigit ch" and "\<forall>ch \<in> set ds'. isDigit ch"
  shows "xs = xs' \<and> ds = ds'"
proof -
  have "takeWhile isDigit (rev (xs @ sep # ds)) = rev ds"
    using assms(2,3) by (simp add: takeWhile_append2 takeWhile_tail)
  moreover have "takeWhile isDigit (rev (xs' @ sep # ds')) = rev ds'"
    using assms(2,4) by (simp add: takeWhile_append2 takeWhile_tail)
  ultimately have "ds = ds'" using assms(1) by (metis rev_is_rev_conv)
  with assms(1) show ?thesis by simp
qed

lemma layerId_inj: "layerId c t = layerId c' t' \<Longrightarrow> c = c' \<and> t = t'"
proof -
  assume eq: "layerId c t = layerId c' t'"
  have e: "(c @ ''-isochrone'') @ CHR ''-'' # show_nat t =
      (c' @ ''-isochrone'') @ CHR ''-'' # show_nat t'"
    using eq by (simp add: layerId_def)
  have nd: "\<not> isDigit CHR ''-''" by (simp add: isDigit_def)
  have d1: "\<forall>ch \<in> set (show_nat t). isDigit ch" using show_nat_digits by blast
  have d2: "\<forall>ch \<in> set (show_nat t'). isDigit ch" using show_nat_digits by blast
  from digits_suffix_unique [OF e nd d1 d2] show ?thesis by (simp add: show_nat_inj)
qed

lemma show_int_last: "show_int a \<noteq> [] \<and> isDigit (last (show_int a))"
  using show_nat_digits [of "nat a"] show_nat_digits [of "nat (- a)"]
  by (simp add: show_int_def)

lemma show_nat_hd: "hd (show_nat n) \<noteq> CHR ''-''"
proof -
  have "isDigit (hd (show_nat n))" using show_nat_digits [of n] by (cases "show_nat n") simp_all
  then show ?thesis by (auto simp add: isDigit_def)
qed

lemma show_int_inj: "show_int a = show_int b \<Longrightarrow> a = b"
proof -
  assume eq: "show_int a = show_int b"
  consider "a < 0" "b < 0" | "a < 0" "\<not> b < 0" | "\<not> a < 0" "b < 0" | "\<not> a < 0" "\<not> b < 0"
    by blast
  then show ?thesis
  proof cases
    case 1
    with eq have "show_nat (nat (- a)) = show_nat (nat (- b))" by (simp add: show_int_def)
    then have "nat (- a) = nat (- b)" by (rule show_nat_inj)
    with 1 show ?thesis by simp
  next
    case 2
    with eq have "CHR ''-'' # show_nat (nat (- a)) = show_nat (nat b)" by (simp add: show_int_def)
    then have "hd (show_nat (nat b)) = CHR ''-''" by (metis list.sel(1))
    then show ?thesis using show_nat_hd by blast
  next
    case 3
    with eq have "show_nat (nat a) = CHR ''-'' # show_nat (nat (- b))" by (simp add: show_int_def)
    then have "hd (show_nat (nat a)) = CHR ''-''" by (metis list.sel(1))
    then show ?thesis using show_nat_hd by blast
  next
    case 4
    with eq have "show_nat (nat a) = show_nat (nat b)" by (simp add: show_int_def)
    then have "nat a = nat b" by (rule show_nat_inj)
    with 4 show ?thesis by simp
  qed
qed

lemma show_int_split:
  "\<exists>sgn. show_int b = sgn @ show_nat (nat \<bar>b\<bar>) \<and> (sgn = [] \<or> sgn = ''-'')"
  by (cases "b < 0") (simp_all add: show_int_def abs_if)

lemma show_int_pair_inj:
  assumes "show_int a @ CHR ''-'' # show_int b = show_int a' @ CHR ''-'' # show_int b'"
  shows "a = a' \<and> b = b'"
proof -
  obtain s where s: "show_int b = s @ show_nat (nat \<bar>b\<bar>)" "s = [] \<or> s = ''-''"
    using show_int_split by blast
  obtain s' where s': "show_int b' = s' @ show_nat (nat \<bar>b'\<bar>)" "s' = [] \<or> s' = ''-''"
    using show_int_split by blast
  define x where "x = (if s = [] then show_int a else show_int a @ ''-'')"
  define x' where "x' = (if s' = [] then show_int a' else show_int a' @ ''-'')"
  have e: "x @ CHR ''-'' # show_nat (nat \<bar>b\<bar>) = x' @ CHR ''-'' # show_nat (nat \<bar>b'\<bar>)"
    using assms s s' by (auto simp add: x_def x'_def)
  have nd: "\<not> isDigit CHR ''-''" by (simp add: isDigit_def)
  have d1: "\<forall>ch \<in> set (show_nat (nat \<bar>b\<bar>)). isDigit ch" using show_nat_digits by blast
  have d2: "\<forall>ch \<in> set (show_nat (nat \<bar>b'\<bar>)). isDigit ch" using show_nat_digits by blast
  from digits_suffix_unique [OF e nd d1 d2]
  have xx: "x = x'" and dd: "show_nat (nat \<bar>b\<bar>) = show_nat (nat \<bar>b'\<bar>)" by simp_all
  have last_a: "last (show_int a) \<noteq> CHR ''-''" "show_int a \<noteq> []"
    using show_int_last [of a] nd by auto
  have last_a': "last (show_int a') \<noteq> CHR ''-''" "show_int a' \<noteq> []"
    using show_int_last [of a'] nd by auto
  have ss: "s = s'"
  proof (rule ccontr)
    assume "s \<noteq> s'"
    then consider "s = []" "s' = ''-''" | "s = ''-''" "s' = []" using s(2) s'(2) by blast
    then show False
    proof cases
      case 1
      then have "show_int a = show_int a' @ ''-''" using xx by (simp add: x_def x'_def)
      then show False using last_a by simp
    next
      case 2
      then have "show_int a @ ''-'' = show_int a'" using xx by (simp add: x_def x'_def)
      then show False using last_a' by (metis last_snoc)
    qed
  qed
  then have "show_int a = show_int a'" using xx by (auto simp add: x_def x'_def split: if_splits)
  moreover have "show_int b = show_int b'" using ss dd s(1) s'(1) by simp
  ultimately show ?thesis by (simp add: show_int_inj)
qed

lemma sourceKey_eq_iff: "sourceKey c l1 = sourceKey c l2 \<longleftrightarrow> quantize l1 = quantize l2"
proof
  assume "sourceKey c l1 = sourceKey c l2"
  then have "show_int (Math_round (double_times (lat l1) 1000)) @
        CHR ''-'' # show_int (Math_round (double_times (lng l1) 1000)) =
      show_int (Math_round (double_times (lat l2) 1000)) @
        CHR ''-'' # show_int (Math_round (double_times (lng l2) 1000))"
    by (simp add: sourceKey_def)
  then show "quantize l1 = quantize l2"
    using show_int_pair_inj by (simp add: quantize_def)
next
  assume "quantize l1 = quantize l2"
  then show "sourceKey c l1 = sourceKey c l2" by (simp add: quantize_def sourceKey_def)
qed

lemma sourceKey_category: "sourceKey c l = sourceKey c' l \<longleftrightarrow> c = c'"
  by (simp add: sourceKey_def)

lemma cacheKey_category: "cacheKey h c l = cacheKey h c' l \<longleftrightarrow> c = c'"
  by (simp add: cacheKey_def)

lemma sourceKey_nonempty: "sourceKey c l \<noteq> []"
  by (simp add: sourceKey_def)

section \<open>Loading: the five ways a call of loadIsochrones can go\<close>

lemma loadIsochrones_hit:
  "isochroneData m (cacheKey h c l) = Some d \<Longrightarrow>
   loadIsochrones_begin h e l c m = (Returned (Some d), m\<lparr>currentLocation := Some l\<rparr>) \<and>
   loadIsochrones h e l c m = (Some d, m\<lparr>currentLocation := Some l\<rparr>)"
  by (simp add: loadIsochrones_def loadIsochrones_begin_def loadIsochrones_resume_def)

lemma loadIsochrones_registered:
  "isochroneData m (cacheKey h c l) = None \<Longrightarrow> getSource (map' m) (sourceKey c l) \<Longrightarrow>
   loadIsochrones h e l c m =
     (Some (createMockIsochroneData c l),
      m\<lparr>currentLocation := Some l,
        pmtilesSources := (pmtilesSources m)(c \<mapsto> sourceKey c l),
        isochroneData := (isochroneData m)(cacheKey h c l \<mapsto> createMockIsochroneData c l)\<rparr>)"
  by (simp add: loadIsochrones_def loadIsochrones_begin_def loadIsochrones_resume_def
      initializePMTilesSource_def settle_def Let_def)

lemma loadIsochrones_throws:
  "isochroneData m (cacheKey h c l) = None \<Longrightarrow> \<not> getSource (map' m) (sourceKey c l) \<Longrightarrow>
   addSourceThrows e (sourceKey c l) \<Longrightarrow>
   loadIsochrones h e l c m = (None, m\<lparr>currentLocation := Some l\<rparr>)"
  by (simp add: loadIsochrones_def loadIsochrones_begin_def loadIsochrones_resume_def
      initializePMTilesSource_def settle_def addSource_def Let_def)

lemma loadIsochrones_loaded:
  "isochroneData m (cacheKey h c l) = None \<Longrightarrow> \<not> getSource (map' m) (sourceKey c l) \<Longrightarrow>
   \<not> addSourceThrows e (sourceKey c l) \<Longrightarrow> sourceLoaded e (sourceKey c l) \<Longrightarrow>
   loadIsochrones h e l c m =
     (Some (createMockIsochroneData c l),
      m\<lparr>currentLocation := Some l,
        map' := (map' m)\<lparr>sources := sources (map' m) @ [(sourceKey c l, sourceUrl h c l)]\<rparr>,
        pmtilesSources := (pmtilesSources m)(c \<mapsto> sourceKey c l),
        isochroneData := (isochroneData m)(cacheKey h c l \<mapsto> createMockIsochroneData c l)\<rparr>)"
  by (simp add: loadIsochrones_def loadIsochrones_begin_def loadIsochrones_resume_def
      initializePMTilesSource_def settle_def addSource_def Let_def)

lemma loadIsochrones_timeout:
  "isochroneData m (cacheKey h c l) = None \<Longrightarrow> \<not> getSource (map' m) (sourceKey c l) \<Longrightarrow>
   \<not> addSourceThrows e (sourceKey c l) \<Longrightarrow> \<not> sourceLoaded e (sourceKey c l) \<Longrightarrow>
   loadIsochrones h e l c m =
     (None,
      m\<lparr>currentLocation := Some l,
        map' := (map' m)\<lparr>sources := sources (map' m) @ [(sourceKey c l, sourceUrl h c l)]\<rparr>,
        pmtilesSources := (pmtilesSources m)(c \<mapsto> sourceKey c l)\<rparr>)"
  by (simp add: loadIsochrones_def loadIsochrones_begin_def loadIsochrones_resume_def
      initializePMTilesSource_def settle_def addSource_def Let_def)

lemma currentLocation_loadIsochrones:
  "currentLocation (snd (loadIsochrones h e l c m)) = Some l"
  by (simp add: loadIsochrones_def loadIsochrones_begin_def loadIsochrones_resume_def
      initializePMTilesSource_def settle_def addSource_def Let_def
      split: option.splits sum.splits)

lemma loadIsochrones_Some:
  "loadIsochrones h e l c m = (Some d, m') \<Longrightarrow>
   isochroneData m' (cacheKey h c l) = Some d \<and> currentLocation m' = Some l"
  by (auto simp add: loadIsochrones_def loadIsochrones_begin_def loadIsochrones_resume_def
      initializePMTilesSource_def settle_def addSource_def Let_def
      split: option.splits sum.splits if_splits)

lemma statsKey_Some: "statsKey h c (Some l) = cacheKey h c l"
  by (simp add: statsKey_def cacheKey_def)

lemma sources_loadIsochrones:
  "sources (map' (snd (loadIsochrones h e l c m))) =
     (if isochroneData m (cacheKey h c l) = None \<and> \<not> getSource (map' m) (sourceKey c l) \<and>
         \<not> addSourceThrows e (sourceKey c l)
      then sources (map' m) @ [(sourceKey c l, sourceUrl h c l)]
      else sources (map' m))"
  by (simp add: loadIsochrones_def loadIsochrones_begin_def loadIsochrones_resume_def
      initializePMTilesSource_def settle_def addSource_def Let_def
      split: option.splits sum.splits)

lemma isochroneData_loadIsochrones_other:
  "k \<noteq> cacheKey h c l \<Longrightarrow> isochroneData (snd (loadIsochrones h e l c m)) k = isochroneData m k"
  by (simp add: loadIsochrones_def loadIsochrones_begin_def loadIsochrones_resume_def
      initializePMTilesSource_def settle_def addSource_def Let_def
      split: option.splits sum.splits)

lemma loadIsochrones_frame:
  "activeLayers (snd (loadIsochrones h e l c m)) = activeLayers m \<and>
   layers (map' (snd (loadIsochrones h e l c m))) = layers (map' m)"
  by (simp add: loadIsochrones_def loadIsochrones_begin_def loadIsochrones_resume_def
      initializePMTilesSource_def settle_def addSource_def Let_def
      split: option.splits sum.splits)

lemma loadIsochrones_pmtilesSources:
  "loadIsochrones h e l c m = (Some d, m') \<Longrightarrow> isochroneData m (cacheKey h c l) = None \<Longrightarrow>
   pmtilesSources m' c = Some (sourceKey c l)"
  by (auto simp add: loadIsochrones_def loadIsochrones_begin_def loadIsochrones_resume_def
      initializePMTilesSource_def settle_def addSource_def Let_def
      split: option.splits sum.splits if_splits)

lemma getPMTilesFileName_eq: "getPMTilesFileName c l = c @ ''_Portland_ME_isochrones.pmtiles''"
  by (simp add: getPMTilesFileName_def Let_def)

lemma sourceUrl_location: "sourceUrl h c l = sourceUrl h c l'"
  by (simp add: sourceUrl_def getPMTilesFileName_eq)

lemma at_most_one_source:
  assumes "quantize l1 = quantize l2"
  shows "sources (map' (snd (loadIsochrones h e2 l2 c (snd (loadIsochrones h e1 l1 c m))))) =
      sources (map' m) \<or>
    sources (map' (snd (loadIsochrones h e2 l2 c (snd (loadIsochrones h e1 l1 c m))))) =
      sources (map' m) @ [(sourceKey c l1, sourceUrl h c l1)]"
proof -
  let ?m1 = "snd (loadIsochrones h e1 l1 c m)"
  have key: "sourceKey c l2 = sourceKey c l1" using assms by (simp add: sourceKey_eq_iff)
  have url: "sourceUrl h c l2 = sourceUrl h c l1" by (rule sourceUrl_location)
  show ?thesis
  proof (cases "sources (map' ?m1) = sources (map' m)")
    case True
    then show ?thesis by (simp add: sources_loadIsochrones [of h e2 l2 c ?m1] key url)
  next
    case False
    then have first: "sources (map' ?m1) = sources (map' m) @ [(sourceKey c l1, sourceUrl h c l1)]"
      by (simp add: sources_loadIsochrones split: if_splits)
    then have "getSource (map' ?m1) (sourceKey c l2)" by (simp add: getSource_def key)
    then show ?thesis using first by (simp add: sources_loadIsochrones [of h e2 l2 c ?m1])
  qed
qed

section \<open>Double arithmetic\<close>

text \<open>
  \<open>bitLength\<close> is the length of the binary numeral, \<open>binaryExponent\<close> the exponent of
  the binade a number lies in, \<open>ulp\<close> the spacing of the doubles there, and \<open>toDouble\<close>
  a nearest multiple of that spacing. \<open>Math_round\<close> rounds to the nearest integer, a
  tie upwards.
\<close>

lemma bitLength_bounds: "0 < n \<Longrightarrow> 2 ^ (bitLength n - 1) \<le> n \<and> n < 2 ^ bitLength n"
proof (induction n rule: bitLength.induct)
  case (1 n)
  show ?case
  proof (cases "n div 2 = 0")
    case True
    with 1(2) have "n = 1" by auto
    then show ?thesis by (simp add: bitLength.simps [of "Suc 0"] bitLength.simps [of 0])
  next
    case False
    then have pos: "0 < n div 2" by simp
    have unfold: "bitLength n = Suc (bitLength (n div 2))"
      using 1(2) by (simp add: bitLength.simps [of n])
    have k: "0 < bitLength (n div 2)"
      using pos by (simp add: bitLength.simps [of "n div 2"])
    from 1(1) [OF _ pos] 1(2)
    have lo: "2 ^ (bitLength (n div 2) - 1) \<le> n div 2" and hi: "n div 2 < 2 ^ bitLength (n div 2)"
      by simp_all
    have "(2::nat) ^ bitLength (n div 2) = 2 * 2 ^ (bitLength (n div 2) - 1)"
      using k by (cases "bitLength (n div 2)") simp_all
    then have "(2::nat) ^ bitLength (n div 2) \<le> 2 * (n div 2)" using lo by simp
    then have a: "(2::nat) ^ (bitLength n - 1) \<le> n" by (simp add: unfold)
    have "n < 2 * (n div 2) + 2" by linarith
    also have "\<dots> \<le> 2 * 2 ^ bitLength (n div 2)" using hi by simp
    finally have b: "n < 2 ^ bitLength n" by (simp add: unfold)
    from a b show ?thesis by simp
  qed
qed

lemma ulp_powi: "ulp e = 2 powi (e - 52)"
proof (cases "52 \<le> e")
  case True
  then show ?thesis by (simp add: ulp_def power_int_nonneg_exp)
next
  case False
  then have "e - 52 = - int (nat (52 - e))" by simp
  then have "(2::real) powi (e - 52) = 1 / 2 ^ nat (52 - e)"
    by (metis power_int_minus_divide power_int_of_nat)
  with False show ?thesis by (simp add: ulp_def)
qed

lemma binaryExponent_bounds:
  assumes "x \<noteq> 0"
  shows "2 powi binaryExponent x \<le> \<bar>x\<bar> \<and> \<bar>x\<bar> < 2 powi (binaryExponent x + 1)"
proof (cases "1 \<le> \<bar>x\<bar>")
  case True
  define n where "n = nat \<lfloor>\<bar>x\<bar>\<rfloor>"
  have n: "0 < n" using True by (simp add: n_def)
  have e: "binaryExponent x = int (bitLength n) - 1" using True by (simp add: binaryExponent_def n_def)
  have k: "0 < bitLength n" using n by (simp add: bitLength.simps [of n])
  from bitLength_bounds [OF n] have lo: "2 ^ (bitLength n - 1) \<le> n" and hi: "n < 2 ^ bitLength n"
    by simp_all
  have nx: "real n \<le> \<bar>x\<bar>" and xn: "\<bar>x\<bar> < real n + 1"
    using True by (simp_all add: n_def)
  have "2 powi binaryExponent x = (2::real) ^ (bitLength n - 1)"
    using k by (simp add: e power_int_nonneg_exp nat_diff_distrib')
  also have "\<dots> = real (2 ^ (bitLength n - 1))" by simp
  also have "\<dots> \<le> real n" using lo by (simp only: of_nat_le_iff)
  finally have a: "2 powi binaryExponent x \<le> \<bar>x\<bar>" using nx by simp
  have "Suc n \<le> 2 ^ bitLength n" using hi by simp
  then have "real (Suc n) \<le> real (2 ^ bitLength n)" by (simp only: of_nat_le_iff)
  then have "real n + 1 \<le> 2 ^ bitLength n" by simp
  then have "\<bar>x\<bar> < 2 ^ bitLength n" using xn by simp
  then have b: "\<bar>x\<bar> < 2 powi (binaryExponent x + 1)" by (simp add: e)
  from a b show ?thesis by simp
next
  case False
  define y where "y = 1 / \<bar>x\<bar>"
  define n where "n = nat (\<lceil>y\<rceil> - 1)"
  have x: "0 < \<bar>x\<bar>" "\<bar>x\<bar> < 1" using assms False by simp_all
  then have y: "1 < y" by (simp add: y_def)
  then have c: "2 \<le> \<lceil>y\<rceil>" by linarith
  then have n: "0 < n" and nc: "int n = \<lceil>y\<rceil> - 1" by (simp_all add: n_def)
  have e: "binaryExponent x = - int (bitLength n)"
    using False by (simp add: binaryExponent_def n_def y_def)
  have k: "0 < bitLength n" using n by (simp add: bitLength.simps [of n])
  from bitLength_bounds [OF n] have lo: "2 ^ (bitLength n - 1) \<le> n" and hi: "n < 2 ^ bitLength n"
    by simp_all
  have "real n < y" using nc by linarith
  moreover have "real (2 ^ (bitLength n - 1)) \<le> real n" using lo by (simp only: of_nat_le_iff)
  ultimately have "real (2 ^ (bitLength n - 1)) < y" by (rule order.strict_trans1 [rotated])
  then have ly: "2 ^ (bitLength n - 1) < y" by simp
  have "Suc n \<le> 2 ^ bitLength n" using hi by simp
  then have "int (Suc n) \<le> int (2 ^ bitLength n)" by (simp only: of_nat_le_iff)
  then have "\<lceil>y\<rceil> \<le> 2 ^ bitLength n" using nc by simp
  then have "y \<le> of_int (2 ^ bitLength n)" by (simp only: ceiling_le_iff)
  then have yk: "y \<le> 2 ^ bitLength n" by simp
  have a: "2 powi binaryExponent x \<le> \<bar>x\<bar>"
  proof -
    have "1 / 2 ^ bitLength n \<le> 1 / y" using yk y by (simp add: frac_le)
    then show ?thesis using x by (simp add: e power_int_minus_divide y_def)
  qed
  have b: "\<bar>x\<bar> < 2 powi (binaryExponent x + 1)"
  proof -
    have "1 / y < 1 / 2 ^ (bitLength n - 1)"
      using ly by (simp add: frac_less2)
    moreover have "binaryExponent x + 1 = - int (bitLength n - 1)" using k by (simp add: e)
    ultimately show ?thesis using x by (simp add: power_int_minus_divide y_def)
  qed
  from a b show ?thesis by simp
qed

lemma roundTiesToEven_near: "\<bar>of_int (roundTiesToEven q) - q\<bar> \<le> 1 / 2"
  by (simp add: roundTiesToEven_def Let_def)

lemma toDouble_near:
  assumes "x \<noteq> 0"
  shows "\<bar>toDouble x - x\<bar> \<le> ulp (max (binaryExponent x) (- 1022)) / 2"
proof -
  define u where "u = ulp (max (binaryExponent x) (- 1022))"
  have u: "0 < u" by (simp add: u_def ulp_powi)
  have "toDouble x - x = (of_int (roundTiesToEven (x / u)) - x / u) * u"
    using assms u by (simp add: toDouble_def u_def [symmetric] Let_def field_simps)
  then have "\<bar>toDouble x - x\<bar> = \<bar>of_int (roundTiesToEven (x / u)) - x / u\<bar> * u"
    using u by (simp add: abs_mult)
  also have "\<dots> \<le> 1 / 2 * u" using roundTiesToEven_near u by (simp add: mult_right_mono)
  finally show ?thesis by (simp add: u_def)
qed

lemma Math_round_eq_iff:
  "Math_round x = n \<longleftrightarrow> of_int n - 1 / 2 \<le> x \<and> x < of_int n + 1 / 2"
  unfolding Math_round_def floor_eq_iff by auto

section \<open>Cache keys\<close>

text \<open>
  With a host that formats numbers as JavaScript does, the cache key
  \<open>`${poiType}-${location.lat}-${location.lng}`\<close> of one category determines both
  coordinates: the first minus sign that follows a complete number text is the separator.
\<close>

lemma numberText_split:
  "a \<noteq> [] \<Longrightarrow> c \<noteq> [] \<Longrightarrow> last a \<noteq> CHR ''e'' \<Longrightarrow> last c \<noteq> CHR ''e'' \<Longrightarrow>
   minusAfterE a \<Longrightarrow> minusAfterE c \<Longrightarrow> a @ CHR ''-'' # b = c @ CHR ''-'' # d \<Longrightarrow> a = c"
proof (induction a arbitrary: c)
  case Nil
  then show ?case by simp
next
  case (Cons x a')
  then obtain x' c' where c: "c = x' # c'" by (cases c) auto
  with Cons.prems have hd: "x' = x" and tl: "a' @ CHR ''-'' # b = c' @ CHR ''-'' # d" by simp_all
  show ?case
  proof (cases a')
    case Nil
    show ?thesis
    proof (cases c')
      case Nil
      with \<open>a' = []\<close> c hd show ?thesis by simp
    next
      case (Cons y c'')
      with tl \<open>a' = []\<close> have "y = CHR ''-''" by simp
      with Cons c hd Cons.prems(6) have "x = CHR ''e''" by simp
      with \<open>a' = []\<close> Cons.prems(3) show ?thesis by simp
    qed
  next
    case a': (Cons y a'')
    show ?thesis
    proof (cases c')
      case Nil
      with tl a' have "y = CHR ''-''" by simp
      with a' Cons.prems(5) have "x = CHR ''e''" by simp
      with Nil c hd Cons.prems(4) show ?thesis by simp
    next
      case c': (Cons y' c'')
      have "a' = c'"
      proof (rule Cons.IH [OF _ _ _ _ _ _ tl])
        show "a' \<noteq> []" using a' by simp
        show "c' \<noteq> []" using c' by simp
        show "last a' \<noteq> CHR ''e''" using Cons.prems(3) a' by simp
        show "last c' \<noteq> CHR ''e''" using Cons.prems(4) c c' by simp
        show "minusAfterE a'" using Cons.prems(5) a' by simp
        show "minusAfterE c'" using Cons.prems(6) c c' by simp
      qed
      with c hd show ?thesis by simp
    qed
  qed
qed

lemma formatsLikeJavaScript_iff:
  "formatsLikeJavaScript h xs \<longleftrightarrow>
     (\<forall>x \<in> set xs. numberText (numToString h x)) \<and>
     (\<forall>x \<in> set xs. \<forall>y \<in> set xs. numToString h x = numToString h y \<longrightarrow> x = y)"
  by (auto simp add: formatsLikeJavaScript_def list_all_iff)

lemma cacheKey_eq:
  assumes "formatsLikeJavaScript h [lat l1, lng l1, lat l2, lng l2]"
    and "cacheKey h c l1 = cacheKey h c l2"
  shows "lat l1 = lat l2 \<and> lng l1 = lng l2"
proof -
  let ?xs = "[lat l1, lng l1, lat l2, lng l2]"
  have wf: "\<forall>x \<in> set ?xs. numberText (numToString h x)"
    and inj: "\<forall>x \<in> set ?xs. \<forall>y \<in> set ?xs. numToString h x = numToString h y \<longrightarrow> x = y"
    using assms(1) unfolding formatsLikeJavaScript_iff by blast+
  have mem: "lat l1 \<in> set ?xs" "lng l1 \<in> set ?xs" "lat l2 \<in> set ?xs" "lng l2 \<in> set ?xs"
    by simp_all
  have wf1: "numberText (numToString h (lat l1))" and wf2: "numberText (numToString h (lat l2))"
    using wf mem by blast+
  have eq: "numToString h (lat l1) @ CHR ''-'' # numToString h (lng l1) =
      numToString h (lat l2) @ CHR ''-'' # numToString h (lng l2)"
    using assms(2) by (simp add: cacheKey_def)
  have lats: "numToString h (lat l1) = numToString h (lat l2)"
    using wf1 wf2 numberText_split [OF _ _ _ _ _ _ eq] by (simp add: numberText_def)
  then have lngs: "numToString h (lng l1) = numToString h (lng l2)" using eq by simp
  from lats inj mem have "lat l1 = lat l2" by blast
  moreover from lngs inj mem have "lng l1 = lng l2" by blast
  ultimately show ?thesis by simp
qed

lemma cacheKey_differs:
  "formatsLikeJavaScript h [lat l1, lng l1, lat l2, lng l2] \<Longrightarrow> quantize l1 \<noteq> quantize l2 \<Longrightarrow>
   cacheKey h c l1 \<noteq> cacheKey h c l2"
  using cacheKey_eq [of h l1 l2 c] by (auto simp add: quantize_def)

section \<open>Evaluating the sample values\<close>

lemmas double_evaluation =
  double_times_def toDouble_def ulp_def roundTiesToEven_def binaryExponent_def bitLength.simps
  Let_def

lemma toDouble_samples:
  "toDouble 43.6591 = 6144472077854101 / 140737488355328"
  "toDouble (- 70.2568) = - (617985348242663 / 8796093022208)"
  "toDouble 43.6593 = 1536125056337943 / 35184372088832"
  "toDouble (- 70.2570) = - (1235974214922535 / 17592186044416)"
  "toDouble 43.6597 = 3072278260173557 / 70368744177664"
  "toDouble (- 70.2564) = - (4943854638443633 / 70368744177664)"
  "toDouble 43.6611 = 6144753552830811 / 140737488355328"
  "toDouble 43.6005 = 3068112430518239 / 70368744177664"
  "toDouble 43.6004 = 6136210787287643 / 140737488355328"
  "toDouble (- 70.2565) = - (4943861675318051 / 70368744177664)"
  by (simp_all add: double_evaluation)

lemma lat_lng_samples:
  "lat portland = 6144472077854101 / 140737488355328"
  "lng portland = - (617985348242663 / 8796093022208)"
  "lat nearby = 1536125056337943 / 35184372088832"
  "lng nearby = - (1235974214922535 / 17592186044416)"
  "lat harbour = 3072278260173557 / 70368744177664"
  "lng harbour = - (4943854638443633 / 70368744177664)"
  "lat uptown = 6144753552830811 / 140737488355328"
  "lng uptown = - (617985348242663 / 8796093022208)"
  "lat onTheTie = 3068112430518239 / 70368744177664"
  "lng onTheTie = - (4943861675318051 / 70368744177664)"
  "lat belowTheTie = 6136210787287643 / 140737488355328"
  "lng belowTheTie = - (617985348242663 / 8796093022208)"
  by (simp_all only: portland_def nearby_def harbour_def uptown_def onTheTie_def
      belowTheTie_def location.simps toDouble_samples)

text \<open>The thousandfolds in double arithmetic: those of 43.6005 and -70.2565 are the ties
  43600.5 and -70256.5, where the exact products of the doubles with 1000 lie just below
  them.\<close>

lemma double_times_samples:
  "double_times (lat portland) 1000 = 1500115253382349 / 34359738368"
  "double_times (lng portland) 1000 = - (4828010533145805 / 68719476736)"
  "double_times (lat nearby) 1000 = 3000244250660045 / 68719476736"
  "double_times (lng nearby) 1000 = - 70257"
  "double_times (lat harbour) 1000 = 6000543476901479 / 137438953472"
  "double_times (lng harbour) 1000 = - (2413991522677555 / 34359738368)"
  "double_times (lat uptown) 1000 = 6000735891436339 / 137438953472"
  "double_times (lng uptown) 1000 = - (4828010533145805 / 68719476736)"
  "double_times (lat onTheTie) 1000 = 87201 / 2"
  "double_times (lng onTheTie) 1000 = - (140513 / 2)"
  "double_times (lat belowTheTie) 1000 = 5992393346960589 / 137438953472"
  "double_times (lng belowTheTie) 1000 = - (4828010533145805 / 68719476736)"
  "lat onTheTie * 1000 < 87201 / 2"
  "lng onTheTie * 1000 < - (140513 / 2)"
  by (simp_all add: lat_lng_samples double_evaluation)

lemma quantize_samples:
  "quantize portland = (43659, - 70257)" "quantize nearby = (43659, - 70257)"
  "quantize harbour = (43660, - 70256)" "quantize uptown = (43661, - 70257)"
  "quantize onTheTie = (43601, - 70256)" "quantize belowTheTie = (43600, - 70257)"
  by (simp_all add: quantize_def double_times_samples Math_round_def)

lemma sourceKey_quantize:
  "sourceKey c l = ''isochrones-'' @ c @ ''-'' @ show_int (fst (quantize l)) @ ''-'' @
     show_int (snd (quantize l))"
  by (simp add: sourceKey_def quantize_def)

lemma sourceKey_portland: "sourceKey c portland = ''isochrones-'' @ c @ ''-43659--70257''"
  by (simp add: sourceKey_quantize quantize_samples show_int_def show_nat.simps digit_def)

lemma sourceKey_nearby: "sourceKey c nearby = ''isochrones-'' @ c @ ''-43659--70257''"
  by (simp add: sourceKey_quantize quantize_samples show_int_def show_nat.simps digit_def)

lemma sourceKey_harbour: "sourceKey c harbour = ''isochrones-'' @ c @ ''-43660--70256''"
  by (simp add: sourceKey_quantize quantize_samples show_int_def show_nat.simps digit_def)

lemma sourceKey_uptown: "sourceKey c uptown = ''isochrones-'' @ c @ ''-43661--70257''"
  by (simp add: sourceKey_quantize quantize_samples show_int_def show_nat.simps digit_def)

lemma sourceKey_onTheTie: "sourceKey c onTheTie = ''isochrones-'' @ c @ ''-43601--70256''"
  by (simp add: sourceKey_quantize quantize_samples show_int_def show_nat.simps digit_def)

lemma sourceKey_belowTheTie: "sourceKey c belowTheTie = ''isochrones-'' @ c @ ''-43600--70257''"
  by (simp add: sourceKey_quantize quantize_samples show_int_def show_nat.simps digit_def)

lemma numToString_samples:
  "numToString browser (6144472077854101 / 140737488355328) = ''43.6591''"
  "numToString browser (- (617985348242663 / 8796093022208)) = ''-70.2568''"
  "numToString browser (1536125056337943 / 35184372088832) = ''43.6593''"
  "numToString browser (- (1235974214922535 / 17592186044416)) = ''-70.257''"
  "numToString browser (3072278260173557 / 70368744177664) = ''43.6597''"
  "numToString browser (- (4943854638443633 / 70368744177664)) = ''-70.2564''"
  "numToString browser (6144753552830811 / 140737488355328) = ''43.6611''"
  "numToString browser (3068112430518239 / 70368744177664) = ''43.6005''"
  "numToString browser (6136210787287643 / 140737488355328) = ''43.6004''"
  "numToString browser (- (4943861675318051 / 70368744177664)) = ''-70.2565''"
  unfolding browser_def host.simps toDouble_samples by simp_all

lemma cacheKey_portland: "cacheKey browser c portland = c @ ''-43.6591--70.2568''"
  by (simp add: cacheKey_def lat_lng_samples numToString_samples)

lemma cacheKey_nearby: "cacheKey browser c nearby = c @ ''-43.6593--70.257''"
  by (simp add: cacheKey_def lat_lng_samples numToString_samples)

lemma cacheKey_harbour: "cacheKey browser c harbour = c @ ''-43.6597--70.2564''"
  by (simp add: cacheKey_def lat_lng_samples numToString_samples)

lemma cacheKey_uptown: "cacheKey browser c uptown = c @ ''-43.6611--70.2568''"
  by (simp add: cacheKey_def lat_lng_samples numToString_samples)

lemma cacheKey_onTheTie: "cacheKey browser c onTheTie = c @ ''-43.6005--70.2565''"
  by (simp add: cacheKey_def lat_lng_samples numToString_samples)

lemma cacheKey_belowTheTie: "cacheKey browser c belowTheTie = c @ ''-43.6004--70.2568''"
  by (simp add: cacheKey_def lat_lng_samples numToString_samples)

lemma browser_formats:
  "formatsLikeJavaScript browser [lat portland, lng portland, lat harbour, lng harbour]"
  "formatsLikeJavaScript browser [lat onTheTie, lng onTheTie, lat belowTheTie, lng belowTheTie]"
  by (simp_all add: formatsLikeJavaScript_def lat_lng_samples numToString_samples numberText_def)

lemma sourceLoaded_loadsInTime:
  "c \<in> {''coffee'', ''bar'', ''grocery''} \<Longrightarrow> sourceLoaded loadsInTime (sourceKey c portland)"
  by (auto simp add: sourceKey_portland sourceLoaded_def loadsInTime_def)

lemma not_sourceLoaded_neverLoads: "\<not> sourceLoaded neverLoads sid"
  by (simp add: sourceLoaded_def neverLoads_def)

lemma fresh_constructor:
  "isochroneData (constructor r) k = None" "pmtilesSources (constructor r) c = None"
  "activeLayers (constructor r) = {}" "currentLocation (constructor r) = None"
  "map' (constructor r) = r"
  by (simp_all add: constructor_def)

lemma not_getSource_emptyMap: "\<not> getSource emptyMap sid"
  by (simp add: emptyMap_def getSource_def)

lemma fresh_load:
  assumes "c \<in> {''coffee'', ''bar'', ''grocery''}"
  shows "loadIsochrones browser loadsInTime portland c (constructor emptyMap) =
     (Some (createMockIsochroneData c portland),
      snd (loadIsochrones browser loadsInTime portland c (constructor emptyMap)))"
proof -
  have "\<not> addSourceThrows loadsInTime (sourceKey c portland)"
    by (simp add: loadsInTime_def)
  then show ?thesis
    using sourceLoaded_loadsInTime [OF assms]
    by (simp add: loadIsochrones_loaded fresh_constructor not_getSource_emptyMap)
qed

lemma fresh_load_bar:
  "loadIsochrones browser loadsInTime portland ''bar'' (constructor emptyMap) =
     (Some (createMockIsochroneData ''bar'' portland),
      snd (loadIsochrones browser loadsInTime portland ''bar'' (constructor emptyMap)))"
  by (rule fresh_load) simp

lemma sourceUrl_samples:
  "sourceUrl browser c portland = ''pmtiles://http://localhost:5173/pmtiles/'' @ c @ ''_Portland_ME_isochrones.pmtiles''"
  "sourceUrl browser c uptown = ''pmtiles://http://localhost:5173/pmtiles/'' @ c @ ''_Portland_ME_isochrones.pmtiles''"
  by (simp_all add: sourceUrl_def getPMTilesFileName_def browser_def Let_def)

lemma sourceUrl_browser:
  "sourceUrl browser c l =
     ''pmtiles://http://localhost:5173/pmtiles/'' @ c @ ''_Portland_ME_isochrones.pmtiles''"
  by (simp add: sourceUrl_def getPMTilesFileName_def browser_def Let_def)

lemma layerId_bands:
  "layerId c 5 = c @ ''-isochrone-5''" "layerId c 10 = c @ ''-isochrone-10''"
  "layerId c 15 = c @ ''-isochrone-15''"
  by (simp_all add: layerId_def show_nat.simps digit_def)

lemma layerIds_eq: "layerIds c = {c @ ''-isochrone-5'', c @ ''-isochrone-10'', c @ ''-isochrone-15''}"
  by (simp add: layerIds_def timeIntervals_def layerId_bands)

lemma fill_opacity_builtLayerConfig: "fill_opacity (builtLayerConfig c src l t) = 6 / 10"
  by (simp add: builtLayerConfig_def createLayerConfig_def)

section \<open>Adding and removing layers\<close>

lemma layer_id_builtLayerConfig: "layer_id (builtLayerConfig c src l t) = layerId c t"
  by (simp add: builtLayerConfig_def createLayerConfig_def layerId_def)

lemma addLayerFor_Some:
  "currentLocation m = Some l \<Longrightarrow>
   addLayerFor e c src t m =
     Inr (if addLayerThrows e (builtLayerConfig c src l t) then m
          else m\<lparr>map' :=
                   (if getLayer (map' m) (layerId c t) then map' m
                    else (map' m)\<lparr>layers := layers (map' m) @ [builtLayerConfig c src l t]\<rparr>),
                 activeLayers := insert (layerId c t) (activeLayers m)\<rparr>)"
  by (simp add: addLayerFor_def addLayer_def Let_def builtLayerConfig_def
      layer_id_builtLayerConfig [unfolded builtLayerConfig_def])

lemma addLayerFor_None: "currentLocation m = None \<Longrightarrow> addLayerFor e c src t m = Inl TypeError"
  by (simp add: addLayerFor_def Let_def)

lemma forEach_addLayer_None:
  "currentLocation m = None \<Longrightarrow> snd (forEach_addLayer e c src ts m) = m"
  by (cases ts) (simp_all add: addLayerFor_None)

lemma forEach_addLayer_Some:
  "currentLocation m = Some l \<Longrightarrow>
   fst (forEach_addLayer e c src ts m) = None \<and>
   activeLayers (snd (forEach_addLayer e c src ts m)) = activeLayers m \<union> acceptedIds e c src l ts \<and>
   layerIdsOf (map' (snd (forEach_addLayer e c src ts m))) =
     layerIdsOf (map' m) \<union> acceptedIds e c src l ts \<and>
   sources (map' (snd (forEach_addLayer e c src ts m))) = sources (map' m) \<and>
   currentLocation (snd (forEach_addLayer e c src ts m)) = Some l \<and>
   isochroneData (snd (forEach_addLayer e c src ts m)) = isochroneData m \<and>
   pmtilesSources (snd (forEach_addLayer e c src ts m)) = pmtilesSources m"
proof (induction ts arbitrary: m)
  case Nil
  then show ?case by (simp add: acceptedIds_def acceptedBands_def)
next
  case (Cons t ts)
  let ?m1 = "if addLayerThrows e (builtLayerConfig c src l t) then m
          else m\<lparr>map' :=
                   (if getLayer (map' m) (layerId c t) then map' m
                    else (map' m)\<lparr>layers := layers (map' m) @ [builtLayerConfig c src l t]\<rparr>),
                 activeLayers := insert (layerId c t) (activeLayers m)\<rparr>"
  have step: "forEach_addLayer e c src (t # ts) m = forEach_addLayer e c src ts ?m1"
    using Cons.prems by (simp add: addLayerFor_Some)
  have loc: "currentLocation ?m1 = Some l" using Cons.prems by simp
  have a: "activeLayers ?m1 \<union> acceptedIds e c src l ts = activeLayers m \<union> acceptedIds e c src l (t # ts)"
    by (auto simp add: acceptedIds_def acceptedBands_def)
  have b: "layerIdsOf (map' ?m1) \<union> acceptedIds e c src l ts =
      layerIdsOf (map' m) \<union> acceptedIds e c src l (t # ts)"
    by (auto simp add: acceptedIds_def acceptedBands_def layerIdsOf_def getLayer_def layer_id_builtLayerConfig)
  have c: "sources (map' ?m1) = sources (map' m)" "isochroneData ?m1 = isochroneData m"
    "pmtilesSources ?m1 = pmtilesSources m"
    by simp_all
  show ?case
    unfolding step using Cons.IH [OF loc] a b c by simp
qed

lemma acceptedIds_subset: "acceptedIds e c src l timeIntervals \<subseteq> layerIds c"
  by (auto simp add: acceptedIds_def acceptedBands_def layerIds_def)

lemma addIsochroneLayers_effect:
  "activeLayers m \<subseteq> activeLayers (addIsochroneLayers e c d m) \<and>
   activeLayers (addIsochroneLayers e c d m) - activeLayers m \<subseteq>
     layerIds c \<inter> layerIdsOf (map' (addIsochroneLayers e c d m)) \<and>
   layerIdsOf (map' m) \<subseteq> layerIdsOf (map' (addIsochroneLayers e c d m)) \<and>
   layerIdsOf (map' (addIsochroneLayers e c d m)) \<subseteq> layerIdsOf (map' m) \<union> layerIds c"
proof (cases "pmtilesSources m c")
  case None
  then show ?thesis by (simp add: addIsochroneLayers_def)
next
  case (Some src)
  show ?thesis
  proof (cases "currentLocation m")
    case None
    then show ?thesis using Some by (simp add: addIsochroneLayers_def forEach_addLayer_None)
  next
    case (Some l)
    from forEach_addLayer_Some [OF Some, of e c src timeIntervals] acceptedIds_subset [of e c src l]
    show ?thesis using \<open>pmtilesSources m c = Some src\<close>
      by (auto simp add: addIsochroneLayers_def)
  qed
qed

lemma removeLayerFor_effect:
  "activeLayers (removeLayerFor c m t) = activeLayers m - ({layerId c t} \<inter> layerIdsOf (map' m)) \<and>
   layers (map' (removeLayerFor c m t)) = filter (\<lambda>cfg. layer_id cfg \<noteq> layerId c t) (layers (map' m)) \<and>
   sources (map' (removeLayerFor c m t)) = sources (map' m) \<and>
   isochroneData (removeLayerFor c m t) = isochroneData m \<and>
   currentLocation (removeLayerFor c m t) = currentLocation m \<and>
   pmtilesSources (removeLayerFor c m t) = pmtilesSources m"
proof (cases "getLayer (map' m) (layerId c t)")
  case True
  then show ?thesis
    by (auto simp add: removeLayerFor_def removeLayer_def Let_def layerIdsOf_def getLayer_def)
next
  case False
  then have "\<forall>cfg \<in> set (layers (map' m)). layer_id cfg \<noteq> layerId c t"
    by (force simp add: getLayer_def)
  then have "filter (\<lambda>cfg. layer_id cfg \<noteq> layerId c t) (layers (map' m)) = layers (map' m)"
    by simp
  with False show ?thesis
    by (auto simp add: removeLayerFor_def Let_def layerIdsOf_def getLayer_def)
qed

lemma foldl_removeLayerFor:
  "activeLayers (foldl (removeLayerFor c) m ts) =
     activeLayers m - (layerId c ` set ts \<inter> layerIdsOf (map' m)) \<and>
   layers (map' (foldl (removeLayerFor c) m ts)) =
     filter (\<lambda>cfg. layer_id cfg \<notin> layerId c ` set ts) (layers (map' m)) \<and>
   sources (map' (foldl (removeLayerFor c) m ts)) = sources (map' m) \<and>
   isochroneData (foldl (removeLayerFor c) m ts) = isochroneData m \<and>
   currentLocation (foldl (removeLayerFor c) m ts) = currentLocation m \<and>
   pmtilesSources (foldl (removeLayerFor c) m ts) = pmtilesSources m"
proof (induction ts arbitrary: m)
  case Nil
  then show ?case by simp
next
  case (Cons t ts)
  have ids: "layerIdsOf (map' (removeLayerFor c m t)) = layerIdsOf (map' m) - {layerId c t}"
    using removeLayerFor_effect [of c m t] by (auto simp add: layerIdsOf_def)
  have "activeLayers m - ({layerId c t} \<inter> layerIdsOf (map' m)) -
      (layerId c ` set ts \<inter> (layerIdsOf (map' m) - {layerId c t})) =
      activeLayers m - (layerId c ` set (t # ts) \<inter> layerIdsOf (map' m))"
    by auto
  moreover have "filter (\<lambda>cfg. layer_id cfg \<notin> layerId c ` set ts)
      (filter (\<lambda>cfg. layer_id cfg \<noteq> layerId c t) (layers (map' m))) =
      filter (\<lambda>cfg. layer_id cfg \<notin> layerId c ` set (t # ts)) (layers (map' m))"
    by (auto intro: filter_cong)
  ultimately show ?case
    using Cons.IH [of "removeLayerFor c m t"] removeLayerFor_effect [of c m t] ids by simp
qed

lemma removeIsochroneLayers_effect:
  "activeLayers (removeIsochroneLayers c m) = activeLayers m - (layerIds c \<inter> layerIdsOf (map' m)) \<and>
   layers (map' (removeIsochroneLayers c m)) =
     filter (\<lambda>cfg. layer_id cfg \<notin> layerIds c) (layers (map' m)) \<and>
   sources (map' (removeIsochroneLayers c m)) = sources (map' m) \<and>
   isochroneData (removeIsochroneLayers c m) = isochroneData m \<and>
   currentLocation (removeIsochroneLayers c m) = currentLocation m \<and>
   pmtilesSources (removeIsochroneLayers c m) = pmtilesSources m"
  using foldl_removeLayerFor [of c m timeIntervals]
  by (simp add: removeIsochroneLayers_def layerIds_def)

lemma layerId_eq_iff: "layerId c t = layerId c' t' \<longleftrightarrow> c = c' \<and> t = t'"
  using layerId_inj by blast

lemma disjoint_after_insert:
  "A \<subseteq> B \<union> {x} \<Longrightarrow> x \<notin> L \<Longrightarrow> L \<inter> B = {} \<Longrightarrow> L \<inter> A = {}"
  by blast

lemma forEach_addLayer_layers:
  assumes "currentLocation m = Some l" and "distinct ts"
    and "layerId c ` set ts \<inter> layerIdsOf (map' m) = {}"
  shows "layers (map' (snd (forEach_addLayer e c src ts m))) =
    layers (map' m) @ map (builtLayerConfig c src l) (acceptedBands e c src l ts)"
  using assms
proof (induction ts arbitrary: m)
  case Nil
  then show ?case by (simp add: acceptedBands_def)
next
  case (Cons t ts)
  let ?m1 = "if addLayerThrows e (builtLayerConfig c src l t) then m
          else m\<lparr>map' :=
                   (if getLayer (map' m) (layerId c t) then map' m
                    else (map' m)\<lparr>layers := layers (map' m) @ [builtLayerConfig c src l t]\<rparr>),
                 activeLayers := insert (layerId c t) (activeLayers m)\<rparr>"
  have step: "forEach_addLayer e c src (t # ts) m = forEach_addLayer e c src ts ?m1"
    using Cons.prems(1) by (simp add: addLayerFor_Some)
  have absent: "\<not> getLayer (map' m) (layerId c t)"
    using Cons.prems(3) by (auto simp add: getLayer_def layerIdsOf_def)
  have loc: "currentLocation ?m1 = Some l" using Cons.prems(1) by simp
  have dist: "distinct ts" and notin: "t \<notin> set ts" using Cons.prems(2) by simp_all
  have grow: "layerIdsOf (map' ?m1) \<subseteq> layerIdsOf (map' m) \<union> {layerId c t}"
    by (auto simp add: layerIdsOf_def layer_id_builtLayerConfig)
  have new: "layerId c t \<notin> layerId c ` set ts"
    using notin by (auto simp add: layerId_eq_iff)
  have old: "layerId c ` set ts \<inter> layerIdsOf (map' m) = {}"
    using Cons.prems(3) by auto
  have disj: "layerId c ` set ts \<inter> layerIdsOf (map' ?m1) = {}"
    by (rule disjoint_after_insert [OF grow new old])
  show ?case
    unfolding step using Cons.IH [OF loc dist disj] absent
    by (simp add: acceptedBands_def)
qed

lemma addIsochroneLayers_active:
  assumes "pmtilesSources m c = Some src" and "src \<noteq> []" and "currentLocation m = Some l"
  shows "activeLayers (addIsochroneLayers e c d m) =
      activeLayers m \<union> acceptedIds e c src l timeIntervals"
    and "layerIdsOf (map' (addIsochroneLayers e c d m)) =
      layerIdsOf (map' m) \<union> acceptedIds e c src l timeIntervals"
    and "sources (map' (addIsochroneLayers e c d m)) = sources (map' m)"
    and "currentLocation (addIsochroneLayers e c d m) = Some l"
    and "isochroneData (addIsochroneLayers e c d m) = isochroneData m"
    and "pmtilesSources (addIsochroneLayers e c d m) = pmtilesSources m"
  using assms forEach_addLayer_Some [OF assms(3), of e c src timeIntervals]
  by (simp_all add: addIsochroneLayers_def)

lemma addIsochroneLayers_layers:
  assumes "pmtilesSources m c = Some src" and "src \<noteq> []" and "currentLocation m = Some l"
    and "layerIds c \<inter> layerIdsOf (map' m) = {}"
  shows "layers (map' (addIsochroneLayers e c d m)) =
    layers (map' m) @ map (builtLayerConfig c src l) (acceptedBands e c src l timeIntervals)"
proof -
  have "distinct timeIntervals" by (simp add: timeIntervals_def)
  then show ?thesis
    using assms forEach_addLayer_layers [OF assms(3), of timeIntervals c e src]
    by (simp add: addIsochroneLayers_def layerIds_def)
qed

lemma fresh_load_state:
  assumes "c \<in> {''coffee'', ''bar'', ''grocery''}"
  shows "pmtilesSources (snd (loadIsochrones browser loadsInTime portland c (constructor emptyMap))) c =
      Some (sourceKey c portland)"
    and "currentLocation (snd (loadIsochrones browser loadsInTime portland c (constructor emptyMap))) =
      Some portland"
    and "activeLayers (snd (loadIsochrones browser loadsInTime portland c (constructor emptyMap))) = {}"
    and "layers (map' (snd (loadIsochrones browser loadsInTime portland c (constructor emptyMap)))) = []"
proof -
  show "pmtilesSources (snd (loadIsochrones browser loadsInTime portland c (constructor emptyMap))) c =
      Some (sourceKey c portland)"
    using fresh_load [OF assms] by (rule loadIsochrones_pmtilesSources) (simp add: fresh_constructor)
  show "currentLocation (snd (loadIsochrones browser loadsInTime portland c (constructor emptyMap))) =
      Some portland"
    by (rule currentLocation_loadIsochrones)
  show "activeLayers (snd (loadIsochrones browser loadsInTime portland c (constructor emptyMap))) = {}"
    by (simp add: loadIsochrones_frame fresh_constructor)
  show "layers (map' (snd (loadIsochrones browser loadsInTime portland c (constructor emptyMap)))) = []"
    by (simp add: loadIsochrones_frame fresh_constructor emptyMap_def)
qed

lemma acceptedBands_rejectsTen:
  "acceptedBands rejectsTen ''coffee'' src l timeIntervals = [5, 15]"
  by (simp add: acceptedBands_def rejectsTen_def timeIntervals_def layer_id_builtLayerConfig
      layerId_bands)

lemma accepts_loadsInTime: "\<not> addLayerThrows loadsInTime cfg"
  by (simp add: loadsInTime_def)

section \<open>The tracked layers are layers of the map\<close>

lemma consistent_constructor: "consistent (constructor r)"
  by (simp add: consistent_def constructor_def)

lemma consistent_loadIsochrones:
  "consistent m \<Longrightarrow> consistent (snd (loadIsochrones h e l c m))"
  by (simp add: consistent_def loadIsochrones_frame)

lemma consistent_alt: "consistent m \<longleftrightarrow> activeLayers m \<subseteq> layerIdsOf (map' m)"
  by (simp add: consistent_def layerIdsOf_def)

lemma consistent_addIsochroneLayers:
  "consistent m \<Longrightarrow> consistent (addIsochroneLayers e c d m)"
  using addIsochroneLayers_effect [of m e c d]
  unfolding consistent_alt by blast

lemma consistent_removeIsochroneLayers:
  "consistent m \<Longrightarrow> consistent (removeIsochroneLayers c m)"
  using removeIsochroneLayers_effect [of c m]
  by (auto simp add: consistent_def layerIdsOf_def)

lemma consistent_clearAll: "consistent (clearAll m)"
  by (simp add: consistent_def clearAll_def)

lemma consistent_setCurrentLocation: "consistent m \<Longrightarrow> consistent (setCurrentLocation l m)"
  by (simp add: consistent_def setCurrentLocation_def)

lemma consistent_generateIsochrones:
  "consistent m \<Longrightarrow> consistent (generateIsochrones h e l c m)"
proof -
  assume "consistent m"
  then have "consistent (snd (loadIsochrones h e l c m))" by (rule consistent_loadIsochrones)
  then show ?thesis
    by (cases "loadIsochrones h e l c m")
      (auto simp add: generateIsochrones_def consistent_addIsochroneLayers split: option.splits)
qed

lemma generateIsochrones_fresh:
  assumes miss: "isochroneData m (cacheKey h c l) = None"
    and fresh: "\<not> getSource (map' m) (sourceKey c l)"
    and accept: "\<not> addSourceThrows e (sourceKey c l)"
    and loaded: "sourceLoaded e (sourceKey c l)"
    and layers: "\<forall>cfg. \<not> addLayerThrows e cfg"
  shows "activeLayers (generateIsochrones h e l c m) = activeLayers m \<union> layerIds c"
    and "layerIdsOf (map' (generateIsochrones h e l c m)) = layerIdsOf (map' m) \<union> layerIds c"
    and "sources (map' (generateIsochrones h e l c m)) =
      sources (map' m) @ [(sourceKey c l, sourceUrl h c l)]"
    and "isochroneData (generateIsochrones h e l c m) =
      (isochroneData m)(cacheKey h c l \<mapsto> createMockIsochroneData c l)"
    and "currentLocation (generateIsochrones h e l c m) = Some l"
    and "pmtilesSources (generateIsochrones h e l c m) = (pmtilesSources m)(c \<mapsto> sourceKey c l)"
proof -
  let ?m1 = "m\<lparr>currentLocation := Some l,
        map' := (map' m)\<lparr>sources := sources (map' m) @ [(sourceKey c l, sourceUrl h c l)]\<rparr>,
        pmtilesSources := (pmtilesSources m)(c \<mapsto> sourceKey c l),
        isochroneData := (isochroneData m)(cacheKey h c l \<mapsto> createMockIsochroneData c l)\<rparr>"
  have gen: "generateIsochrones h e l c m =
      addIsochroneLayers e c (createMockIsochroneData c l) ?m1"
    by (simp add: generateIsochrones_def loadIsochrones_loaded [OF miss fresh accept loaded])
  have src: "pmtilesSources ?m1 c = Some (sourceKey c l)" by simp
  have loc: "currentLocation ?m1 = Some l" by simp
  have all: "acceptedIds e c (sourceKey c l) l timeIntervals = layerIds c"
    using layers by (simp add: acceptedIds_def acceptedBands_def layerIds_def)
  note add = addIsochroneLayers_active [OF src sourceKey_nonempty loc, of e "createMockIsochroneData c l"]
  show "activeLayers (generateIsochrones h e l c m) = activeLayers m \<union> layerIds c"
    using add(1) by (simp add: gen all)
  show "layerIdsOf (map' (generateIsochrones h e l c m)) = layerIdsOf (map' m) \<union> layerIds c"
    using add(2) by (simp add: gen all layerIdsOf_def)
  show "sources (map' (generateIsochrones h e l c m)) =
      sources (map' m) @ [(sourceKey c l, sourceUrl h c l)]"
    using add(3) by (simp add: gen)
  show "isochroneData (generateIsochrones h e l c m) =
      (isochroneData m)(cacheKey h c l \<mapsto> createMockIsochroneData c l)"
    using add(5) by (simp add: gen)
  show "currentLocation (generateIsochrones h e l c m) = Some l"
    using add(4) by (simp add: gen)
  show "pmtilesSources (generateIsochrones h e l c m) = (pmtilesSources m)(c \<mapsto> sourceKey c l)"
    using add(6) by (simp add: gen)
qed

lemma coffeeShown_state:
  "activeLayers coffeeShown = layerIds ''coffee''"
  "layerIdsOf (map' coffeeShown) = layerIds ''coffee''"
  "sources (map' coffeeShown) = [(sourceKey ''coffee'' portland, sourceUrl browser ''coffee'' portland)]"
  "isochroneData coffeeShown =
     [cacheKey browser ''coffee'' portland \<mapsto> createMockIsochroneData ''coffee'' portland]"
  "currentLocation coffeeShown = Some portland"
  "pmtilesSources coffeeShown = [''coffee'' \<mapsto> sourceKey ''coffee'' portland]"
proof -
  have miss: "isochroneData (constructor emptyMap) (cacheKey browser ''coffee'' portland) = None"
    by (simp add: fresh_constructor)
  have fresh: "\<not> getSource (map' (constructor emptyMap)) (sourceKey ''coffee'' portland)"
    by (simp add: fresh_constructor not_getSource_emptyMap)
  have accept: "\<not> addSourceThrows loadsInTime (sourceKey ''coffee'' portland)"
    by (simp add: loadsInTime_def)
  have loaded: "sourceLoaded loadsInTime (sourceKey ''coffee'' portland)"
    by (rule sourceLoaded_loadsInTime) simp
  have layers: "\<forall>cfg. \<not> addLayerThrows loadsInTime cfg" by (simp add: accepts_loadsInTime)
  note gen = generateIsochrones_fresh [OF miss fresh accept loaded layers]
  show "activeLayers coffeeShown = layerIds ''coffee''"
    using gen(1) by (simp add: coffeeShown_def fresh_constructor)
  show "layerIdsOf (map' coffeeShown) = layerIds ''coffee''"
    using gen(2) by (simp add: coffeeShown_def fresh_constructor layerIdsOf_def emptyMap_def)
  show "sources (map' coffeeShown) =
      [(sourceKey ''coffee'' portland, sourceUrl browser ''coffee'' portland)]"
    using gen(3) by (simp add: coffeeShown_def fresh_constructor emptyMap_def)
  show "isochroneData coffeeShown =
     [cacheKey browser ''coffee'' portland \<mapsto> createMockIsochroneData ''coffee'' portland]"
    using gen(4) by (simp add: coffeeShown_def constructor_def)
  show "currentLocation coffeeShown = Some portland"
    using gen(5) by (simp add: coffeeShown_def)
  show "pmtilesSources coffeeShown = [''coffee'' \<mapsto> sourceKey ''coffee'' portland]"
    using gen(6) by (simp add: coffeeShown_def constructor_def)
qed

lemma allShown_active:
  "activeLayers allShown = layerIds ''coffee'' \<union> layerIds ''bar'' \<union> layerIds ''grocery''"
proof -
  let ?b = "generateIsochrones browser loadsInTime portland ''bar'' coffeeShown"
  have layers: "\<forall>cfg. \<not> addLayerThrows loadsInTime cfg" by (simp add: accepts_loadsInTime)
  have accept: "\<not> addSourceThrows loadsInTime sid" for sid by (simp add: loadsInTime_def)
  have miss_b: "isochroneData coffeeShown (cacheKey browser ''bar'' portland) = None"
    by (simp add: coffeeShown_state cacheKey_portland)
  have fresh_b: "\<not> getSource (map' coffeeShown) (sourceKey ''bar'' portland)"
    by (simp add: getSource_def coffeeShown_state sourceKey_portland)
  have loaded_b: "sourceLoaded loadsInTime (sourceKey ''bar'' portland)"
    by (rule sourceLoaded_loadsInTime) simp
  note bar = generateIsochrones_fresh [OF miss_b fresh_b accept loaded_b layers]
  have miss_g: "isochroneData ?b (cacheKey browser ''grocery'' portland) = None"
    by (simp add: bar(4) coffeeShown_state cacheKey_portland)
  have fresh_g: "\<not> getSource (map' ?b) (sourceKey ''grocery'' portland)"
    by (simp add: getSource_def bar(3) coffeeShown_state sourceKey_portland)
  have loaded_g: "sourceLoaded loadsInTime (sourceKey ''grocery'' portland)"
    by (rule sourceLoaded_loadsInTime) simp
  note grocery = generateIsochrones_fresh [OF miss_g fresh_g accept loaded_g layers]
  show ?thesis
    unfolding allShown_def by (simp add: grocery(1) bar(1) coffeeShown_state)
qed

lemma consistent_allShown: "consistent allShown"
  unfolding allShown_def coffeeShown_def
  by (intro consistent_generateIsochrones consistent_constructor)

section \<open>The result cache\<close>

text \<open>
  C1, as the code has it. When a call of \<open>loadIsochrones\<close> has returned a descriptor, a
  second call with the same category and location returns that descriptor from the cache
  whatever the rendering engine would do: it returns before the \<open>await\<close>, so
  \<open>initializePMTilesSource\<close> is not called, and it leaves the whole state, the registered
  sources included, as it was.
\<close>

theorem second_load_is_a_cache_hit:
  assumes "loadIsochrones h e l c m = (Some d, m')"
  shows "loadIsochrones_begin h e' l c m' = (Returned (Some d), m') \<and>
    loadIsochrones h e' l c m' = (Some d, m')"
proof -
  have "isochroneData m' (cacheKey h c l) = Some d" and cl: "currentLocation m' = Some l"
    using loadIsochrones_Some [OF assms] by simp_all
  then have "loadIsochrones_begin h e' l c m' = (Returned (Some d), m'\<lparr>currentLocation := Some l\<rparr>) \<and>
    loadIsochrones h e' l c m' = (Some d, m'\<lparr>currentLocation := Some l\<rparr>)"
    by (simp add: loadIsochrones_hit)
  moreover have "m'\<lparr>currentLocation := Some l\<rparr> = m'" using cl by simp
  ultimately show ?thesis by simp
qed

theorem second_load_is_a_cache_hit_witness:
  "loadIsochrones browser loadsInTime portland ''coffee'' (constructor emptyMap) =
     (Some (createMockIsochroneData ''coffee'' portland),
      snd (loadIsochrones browser loadsInTime portland ''coffee'' (constructor emptyMap))) \<and>
   loadIsochrones_begin browser neverLoads portland ''coffee''
       (snd (loadIsochrones browser loadsInTime portland ''coffee'' (constructor emptyMap))) =
     (Returned (Some (createMockIsochroneData ''coffee'' portland)),
      snd (loadIsochrones browser loadsInTime portland ''coffee'' (constructor emptyMap))) \<and>
   loadIsochrones browser neverLoads portland ''coffee''
       (snd (loadIsochrones browser loadsInTime portland ''coffee'' (constructor emptyMap))) =
     (Some (createMockIsochroneData ''coffee'' portland),
      snd (loadIsochrones browser loadsInTime portland ''coffee'' (constructor emptyMap)))"
proof -
  have first: "loadIsochrones browser loadsInTime portland ''coffee'' (constructor emptyMap) =
     (Some (createMockIsochroneData ''coffee'' portland),
      snd (loadIsochrones browser loadsInTime portland ''coffee'' (constructor emptyMap)))"
    by (rule fresh_load) simp
  from second_load_is_a_cache_hit [OF first, of neverLoads] first show ?thesis by simp
qed

text \<open>
  C1 as stated fails after a call that timed out: nothing was cached, so the second call
  with the same category and location runs \<open>initializePMTilesSource\<close> again, finds the
  source registered, and returns a descriptor where the first call returned null.
\<close>

theorem failed_load_is_retried:
  "fst (loadIsochrones browser neverLoads portland ''coffee'' (constructor emptyMap)) = None \<and>
   fst (loadIsochrones_begin browser neverLoads portland ''coffee''
          (snd (loadIsochrones browser neverLoads portland ''coffee'' (constructor emptyMap)))) =
     Awaiting ''coffee-43.6591--70.2568'' ''coffee'' portland Resolved \<and>
   fst (loadIsochrones browser neverLoads portland ''coffee''
          (snd (loadIsochrones browser neverLoads portland ''coffee'' (constructor emptyMap)))) =
     Some (createMockIsochroneData ''coffee'' portland)"
proof -
  have accept: "\<not> addSourceThrows neverLoads (sourceKey ''coffee'' portland)"
    by (simp add: neverLoads_def)
  have first: "loadIsochrones browser neverLoads portland ''coffee'' (constructor emptyMap) =
     (None,
      (constructor emptyMap)\<lparr>currentLocation := Some portland,
        map' := (map' (constructor emptyMap))
          \<lparr>sources := sources (map' (constructor emptyMap)) @
             [(sourceKey ''coffee'' portland, sourceUrl browser ''coffee'' portland)]\<rparr>,
        pmtilesSources :=
          (pmtilesSources (constructor emptyMap))(''coffee'' \<mapsto> sourceKey ''coffee'' portland)\<rparr>)"
    using accept
    by (simp add: loadIsochrones_timeout fresh_constructor not_getSource_emptyMap
        not_sourceLoaded_neverLoads)
  have again: "fst (loadIsochrones_begin browser neverLoads portland ''coffee''
          (snd (loadIsochrones browser neverLoads portland ''coffee'' (constructor emptyMap)))) =
     Awaiting ''coffee-43.6591--70.2568'' ''coffee'' portland Resolved"
    unfolding first
    by (simp add: loadIsochrones_begin_def initializePMTilesSource_def fresh_constructor
        getSource_def cacheKey_portland Let_def)
  have second: "fst (loadIsochrones browser neverLoads portland ''coffee''
          (snd (loadIsochrones browser neverLoads portland ''coffee'' (constructor emptyMap)))) =
     Some (createMockIsochroneData ''coffee'' portland)"
    unfolding first by (simp add: loadIsochrones_registered fresh_constructor getSource_def)
  from first again second show ?thesis by simp
qed

section \<open>Source registration\<close>

text \<open>
  C2. The quantization of a location is that of the code: each coordinate is multiplied by
  1000 in double arithmetic and the product is rounded to the nearest integer, a tie
  upwards, so that the rounded latitude is \<open>a\<close> exactly when the product lies in the
  interval from \<open>a - 1/2\<close> (included) to \<open>a + 1/2\<close> (excluded). For one category the
  source key is the same exactly when the two locations have the same quantization.
  Loading two locations of the same quantization registers at most one source, from any
  state and whatever the rendering engine does. Starting where the first location's
  source is not registered and its key not cached, with \<open>addSource\<close> not throwing:
  loading two locations of the same quantization registers exactly one source; loading
  two locations of different quantization (the second one neither registered nor
  cached, on a host that formats the four coordinates as JavaScript does) registers two
  sources with distinct keys.
\<close>

theorem one_source_per_quantized_location:
  "(quantize l1 = quantize l2 \<longleftrightarrow> sourceKey c l1 = sourceKey c l2) \<and>
   (quantize l1 = (a, b) \<longleftrightarrow>
      of_int a - 1 / 2 \<le> double_times (lat l1) 1000 \<and>
      double_times (lat l1) 1000 < of_int a + 1 / 2 \<and>
      of_int b - 1 / 2 \<le> double_times (lng l1) 1000 \<and>
      double_times (lng l1) 1000 < of_int b + 1 / 2) \<and>
   (quantize l1 = quantize l2 \<longrightarrow>
      sources (map' (snd (loadIsochrones h e2 l2 c (snd (loadIsochrones h e1 l1 c m))))) =
        sources (map' m) \<or>
      sources (map' (snd (loadIsochrones h e2 l2 c (snd (loadIsochrones h e1 l1 c m))))) =
        sources (map' m) @ [(sourceKey c l1, sourceUrl h c l1)]) \<and>
   (\<not> getSource (map' m) (sourceKey c l1) \<longrightarrow> isochroneData m (cacheKey h c l1) = None \<longrightarrow>
    \<not> addSourceThrows e1 (sourceKey c l1) \<longrightarrow>
      (quantize l1 = quantize l2 \<longrightarrow>
         sources (map' (snd (loadIsochrones h e2 l2 c (snd (loadIsochrones h e1 l1 c m))))) =
           sources (map' m) @ [(sourceKey c l1, sourceUrl h c l1)]) \<and>
      (quantize l1 \<noteq> quantize l2 \<longrightarrow>
         \<not> getSource (map' m) (sourceKey c l2) \<longrightarrow> isochroneData m (cacheKey h c l2) = None \<longrightarrow>
         formatsLikeJavaScript h [lat l1, lng l1, lat l2, lng l2] \<longrightarrow>
         \<not> addSourceThrows e2 (sourceKey c l2) \<longrightarrow>
         sourceKey c l1 \<noteq> sourceKey c l2 \<and>
         sources (map' (snd (loadIsochrones h e2 l2 c (snd (loadIsochrones h e1 l1 c m))))) =
           sources (map' m) @
             [(sourceKey c l1, sourceUrl h c l1), (sourceKey c l2, sourceUrl h c l2)]))"
proof (intro conjI impI)
  show "quantize l1 = quantize l2 \<longleftrightarrow> sourceKey c l1 = sourceKey c l2"
    by (simp add: sourceKey_eq_iff)
next
  show "quantize l1 = (a, b) \<longleftrightarrow>
      of_int a - 1 / 2 \<le> double_times (lat l1) 1000 \<and>
      double_times (lat l1) 1000 < of_int a + 1 / 2 \<and>
      of_int b - 1 / 2 \<le> double_times (lng l1) 1000 \<and>
      double_times (lng l1) 1000 < of_int b + 1 / 2"
    by (simp add: quantize_def Math_round_eq_iff)
next
  assume "quantize l1 = quantize l2"
  then show "sources (map' (snd (loadIsochrones h e2 l2 c (snd (loadIsochrones h e1 l1 c m))))) =
      sources (map' m) \<or>
    sources (map' (snd (loadIsochrones h e2 l2 c (snd (loadIsochrones h e1 l1 c m))))) =
      sources (map' m) @ [(sourceKey c l1, sourceUrl h c l1)]"
    by (rule at_most_one_source)
next
  let ?m1 = "snd (loadIsochrones h e1 l1 c m)"
  assume fresh1: "\<not> getSource (map' m) (sourceKey c l1)"
    and miss1: "isochroneData m (cacheKey h c l1) = None"
    and accept1: "\<not> addSourceThrows e1 (sourceKey c l1)"
  then have first: "sources (map' ?m1) = sources (map' m) @ [(sourceKey c l1, sourceUrl h c l1)]"
    by (simp add: sources_loadIsochrones)
  {
    assume "quantize l1 = quantize l2"
    then have "sourceKey c l2 = sourceKey c l1" by (simp add: sourceKey_eq_iff)
    then have "getSource (map' ?m1) (sourceKey c l2)" using first by (simp add: getSource_def)
    then show "sources (map' (snd (loadIsochrones h e2 l2 c ?m1))) =
        sources (map' m) @ [(sourceKey c l1, sourceUrl h c l1)]"
      using first by (simp add: sources_loadIsochrones)
  }
  {
    assume differ: "quantize l1 \<noteq> quantize l2"
      and formats: "formatsLikeJavaScript h [lat l1, lng l1, lat l2, lng l2]"
      and fresh2: "\<not> getSource (map' m) (sourceKey c l2)"
      and miss2: "isochroneData m (cacheKey h c l2) = None"
      and accept2: "\<not> addSourceThrows e2 (sourceKey c l2)"
    from formats differ have keys: "cacheKey h c l1 \<noteq> cacheKey h c l2" by (rule cacheKey_differs)
    from differ show "sourceKey c l1 \<noteq> sourceKey c l2" by (simp add: sourceKey_eq_iff)
    then have "\<not> getSource (map' ?m1) (sourceKey c l2)"
      using first fresh2 by (auto simp add: getSource_def)
    moreover have "isochroneData ?m1 (cacheKey h c l2) = None"
      using keys miss2 by (simp add: isochroneData_loadIsochrones_other)
    ultimately show "sources (map' (snd (loadIsochrones h e2 l2 c ?m1))) =
        sources (map' m) @ [(sourceKey c l1, sourceUrl h c l1), (sourceKey c l2, sourceUrl h c l2)]"
      using first accept2 by (simp add: sources_loadIsochrones)
  }
qed

text \<open>
  Three pairs of sample locations. Portland and the location nearby have the same
  quantization and one source is registered. Portland and the harbour have different
  quantizations, though rounding downwards would give them the same, and two sources are
  registered. The two locations at the tie have different quantizations, though rounding
  the exact products of the doubles with 1000 would give them the same, and two sources
  are registered.
\<close>

theorem one_source_per_quantized_location_witness:
  "\<not> getSource (map' (constructor emptyMap)) (sourceKey ''coffee'' portland) \<and>
   isochroneData (constructor emptyMap) (cacheKey browser ''coffee'' portland) = None \<and>
   \<not> addSourceThrows loadsInTime (sourceKey ''coffee'' portland) \<and>
   quantize portland = (43659, - 70257) \<and> quantize nearby = (43659, - 70257) \<and>
   sources (map' (snd (loadIsochrones browser neverLoads nearby ''coffee''
       (snd (loadIsochrones browser loadsInTime portland ''coffee'' (constructor emptyMap)))))) =
     [(''isochrones-coffee-43659--70257'',
       ''pmtiles://http://localhost:5173/pmtiles/coffee_Portland_ME_isochrones.pmtiles'')] \<and>
   quantize harbour = (43660, - 70256) \<and>
   \<lfloor>lat portland * 1000\<rfloor> = \<lfloor>lat harbour * 1000\<rfloor> \<and>
   \<lfloor>lng portland * 1000\<rfloor> = \<lfloor>lng harbour * 1000\<rfloor> \<and>
   \<not> getSource (map' (constructor emptyMap)) (sourceKey ''coffee'' harbour) \<and>
   isochroneData (constructor emptyMap) (cacheKey browser ''coffee'' harbour) = None \<and>
   formatsLikeJavaScript browser [lat portland, lng portland, lat harbour, lng harbour] \<and>
   \<not> addSourceThrows neverLoads (sourceKey ''coffee'' harbour) \<and>
   sources (map' (snd (loadIsochrones browser neverLoads harbour ''coffee''
       (snd (loadIsochrones browser loadsInTime portland ''coffee'' (constructor emptyMap)))))) =
     [(''isochrones-coffee-43659--70257'',
       ''pmtiles://http://localhost:5173/pmtiles/coffee_Portland_ME_isochrones.pmtiles''),
      (''isochrones-coffee-43660--70256'',
       ''pmtiles://http://localhost:5173/pmtiles/coffee_Portland_ME_isochrones.pmtiles'')] \<and>
   quantize onTheTie = (43601, - 70256) \<and> quantize belowTheTie = (43600, - 70257) \<and>
   (Math_round (lat onTheTie * 1000), Math_round (lng onTheTie * 1000)) = (43600, - 70257) \<and>
   \<not> getSource (map' (constructor emptyMap)) (sourceKey ''coffee'' onTheTie) \<and>
   isochroneData (constructor emptyMap) (cacheKey browser ''coffee'' onTheTie) = None \<and>
   \<not> addSourceThrows neverLoads (sourceKey ''coffee'' onTheTie) \<and>
   \<not> getSource (map' (constructor emptyMap)) (sourceKey ''coffee'' belowTheTie) \<and>
   isochroneData (constructor emptyMap) (cacheKey browser ''coffee'' belowTheTie) = None \<and>
   formatsLikeJavaScript browser [lat onTheTie, lng onTheTie, lat belowTheTie, lng belowTheTie] \<and>
   \<not> addSourceThrows neverLoads (sourceKey ''coffee'' belowTheTie) \<and>
   sources (map' (snd (loadIsochrones browser neverLoads belowTheTie ''coffee''
       (snd (loadIsochrones browser neverLoads onTheTie ''coffee'' (constructor emptyMap)))))) =
     [(''isochrones-coffee-43601--70256'',
       ''pmtiles://http://localhost:5173/pmtiles/coffee_Portland_ME_isochrones.pmtiles''),
      (''isochrones-coffee-43600--70257'',
       ''pmtiles://http://localhost:5173/pmtiles/coffee_Portland_ME_isochrones.pmtiles'')]"
proof -
  have fresh: "\<not> getSource (map' (constructor emptyMap)) (sourceKey ''coffee'' l)" for l
    by (simp add: fresh_constructor not_getSource_emptyMap)
  have miss: "isochroneData (constructor emptyMap) (cacheKey browser ''coffee'' l) = None" for l
    by (simp add: fresh_constructor)
  have accept1: "\<not> addSourceThrows loadsInTime (sourceKey ''coffee'' l)" for l
    by (simp add: loadsInTime_def)
  have accept2: "\<not> addSourceThrows neverLoads (sourceKey ''coffee'' l)" for l
    by (simp add: neverLoads_def)
  have empty: "sources (map' (constructor emptyMap)) = []"
    by (simp add: fresh_constructor emptyMap_def)
  have bounds:
    "of_int 43601 - 1 / 2 \<le> double_times (lat onTheTie) 1000 \<and>
     double_times (lat onTheTie) 1000 < of_int 43601 + 1 / 2 \<and>
     of_int (- 70256) - 1 / 2 \<le> double_times (lng onTheTie) 1000 \<and>
     double_times (lng onTheTie) 1000 < of_int (- 70256) + 1 / 2"
    by (simp add: double_times_samples)
  have qPortland: "quantize portland = (43659, - 70257)"
    and qNearby: "quantize nearby = (43659, - 70257)"
    and qHarbour: "quantize harbour = (43660, - 70256)"
    and qBelow: "quantize belowTheTie = (43600, - 70257)"
    by (simp_all add: quantize_samples)
  have floors: "\<lfloor>lat portland * 1000\<rfloor> = \<lfloor>lat harbour * 1000\<rfloor>"
    "\<lfloor>lng portland * 1000\<rfloor> = \<lfloor>lng harbour * 1000\<rfloor>"
    by (simp_all add: lat_lng_samples)
  have exact: "(Math_round (lat onTheTie * 1000), Math_round (lng onTheTie * 1000)) =
      (43600, - 70257)"
    by (simp add: lat_lng_samples Math_round_def)
  note formats = browser_formats
  note one_source_per_quantized_location [where ?l1.0 = onTheTie and a = 43601
      and b = "- 70256", THEN conjunct2, THEN conjunct1, THEN iffD2, OF bounds]
  then have qOn: "quantize onTheTie = (43601, - 70256)" .
  have same: "quantize portland = quantize nearby" by (simp add: qPortland qNearby)
  have differ: "quantize portland \<noteq> quantize harbour" by (simp add: qPortland qHarbour)
  have differ': "quantize onTheTie \<noteq> quantize belowTheTie" by (simp add: qOn qBelow)
  note one_source_per_quantized_location [where ?l1.0 = portland and ?l2.0 = nearby
      and c = "''coffee''" and h = browser and ?e2.0 = neverLoads and ?e1.0 = loadsInTime
      and m = "constructor emptyMap", THEN conjunct2, THEN conjunct2, THEN conjunct2,
      THEN mp, OF fresh, THEN mp, OF miss, THEN mp, OF accept1, THEN conjunct1,
      THEN mp, OF same]
  then have "sources (map' (snd (loadIsochrones browser neverLoads nearby ''coffee''
       (snd (loadIsochrones browser loadsInTime portland ''coffee'' (constructor emptyMap)))))) =
     sources (map' (constructor emptyMap)) @
       [(sourceKey ''coffee'' portland, sourceUrl browser ''coffee'' portland)]" .
  then have one: "sources (map' (snd (loadIsochrones browser neverLoads nearby ''coffee''
       (snd (loadIsochrones browser loadsInTime portland ''coffee'' (constructor emptyMap)))))) =
     [(''isochrones-coffee-43659--70257'',
       ''pmtiles://http://localhost:5173/pmtiles/coffee_Portland_ME_isochrones.pmtiles'')]"
    by (simp add: empty sourceKey_portland sourceUrl_browser)
  note one_source_per_quantized_location [where ?l1.0 = portland and ?l2.0 = harbour
      and c = "''coffee''" and h = browser and ?e2.0 = neverLoads and ?e1.0 = loadsInTime
      and m = "constructor emptyMap", THEN conjunct2, THEN conjunct2, THEN conjunct2,
      THEN mp, OF fresh, THEN mp, OF miss, THEN mp, OF accept1, THEN conjunct2,
      THEN mp, OF differ, THEN mp, OF fresh, THEN mp, OF miss, THEN mp, OF formats(1),
      THEN mp, OF accept2, THEN conjunct2]
  then have "sources (map' (snd (loadIsochrones browser neverLoads harbour ''coffee''
       (snd (loadIsochrones browser loadsInTime portland ''coffee'' (constructor emptyMap)))))) =
     sources (map' (constructor emptyMap)) @
       [(sourceKey ''coffee'' portland, sourceUrl browser ''coffee'' portland),
        (sourceKey ''coffee'' harbour, sourceUrl browser ''coffee'' harbour)]" .
  then have two: "sources (map' (snd (loadIsochrones browser neverLoads harbour ''coffee''
       (snd (loadIsochrones browser loadsInTime portland ''coffee'' (constructor emptyMap)))))) =
     [(''isochrones-coffee-43659--70257'',
       ''pmtiles://http://localhost:5173/pmtiles/coffee_Portland_ME_isochrones.pmtiles''),
      (''isochrones-coffee-43660--70256'',
       ''pmtiles://http://localhost:5173/pmtiles/coffee_Portland_ME_isochrones.pmtiles'')]"
    by (simp add: empty sourceKey_portland sourceKey_harbour sourceUrl_browser)
  note one_source_per_quantized_location [where ?l1.0 = onTheTie and ?l2.0 = belowTheTie
      and c = "''coffee''" and h = browser and ?e2.0 = neverLoads and ?e1.0 = neverLoads
      and m = "constructor emptyMap", THEN conjunct2, THEN conjunct2, THEN conjunct2,
      THEN mp, OF fresh, THEN mp, OF miss, THEN mp, OF accept2, THEN conjunct2,
      THEN mp, OF differ', THEN mp, OF fresh, THEN mp, OF miss, THEN mp, OF formats(2),
      THEN mp, OF accept2, THEN conjunct2]
  then have "sources (map' (snd (loadIsochrones browser neverLoads belowTheTie ''coffee''
       (snd (loadIsochrones browser neverLoads onTheTie ''coffee'' (constructor emptyMap)))))) =
     sources (map' (constructor emptyMap)) @
       [(sourceKey ''coffee'' onTheTie, sourceUrl browser ''coffee'' onTheTie),
        (sourceKey ''coffee'' belowTheTie, sourceUrl browser ''coffee'' belowTheTie)]" .
  then have tie: "sources (map' (snd (loadIsochrones browser neverLoads belowTheTie ''coffee''
       (snd (loadIsochrones browser neverLoads onTheTie ''coffee'' (constructor emptyMap)))))) =
     [(''isochrones-coffee-43601--70256'',
       ''pmtiles://http://localhost:5173/pmtiles/coffee_Portland_ME_isochrones.pmtiles''),
      (''isochrones-coffee-43600--70257'',
       ''pmtiles://http://localhost:5173/pmtiles/coffee_Portland_ME_isochrones.pmtiles'')]"
    by (simp add: empty sourceKey_onTheTie sourceKey_belowTheTie sourceUrl_browser)
  from fresh [of portland] miss [of portland] accept1 [of portland] qPortland qNearby one
    qHarbour floors fresh [of harbour] miss [of harbour] formats(1) accept2 [of harbour] two
    qOn qBelow exact fresh [of onTheTie] miss [of onTheTie] accept2 [of onTheTie]
    fresh [of belowTheTie] miss [of belowTheTie] formats(2) accept2 [of belowTheTie] tie
  show ?thesis by (intro conjI)
qed

text \<open>
  C3. A call whose source is registered by it and is not reported loaded by any event
  delivered before the 10-second timer fires returns null; the source stays registered and
  the cache has no entry for the key. A call for another category issued together with
  it, whose source is reported loaded in time, returns a descriptor, whichever call was
  issued first and whichever promise settles first.
\<close>

theorem timeout_yields_null:
  assumes miss: "isochroneData m (cacheKey h c l) = None"
    and fresh: "\<not> getSource (map' m) (sourceKey c l)"
    and accept: "\<not> addSourceThrows e (sourceKey c l)"
    and late: "\<not> sourceLoaded e (sourceKey c l)"
    and sibling: "c' \<noteq> c"
    and accept': "\<not> addSourceThrows e' (sourceKey c' l)"
    and intime: "sourceLoaded e' (sourceKey c' l)"
  shows "fst (loadIsochrones h e l c m) = None \<and>
    getSource (map' (snd (loadIsochrones h e l c m))) (sourceKey c l) \<and>
    isochroneData (snd (loadIsochrones h e l c m)) (cacheKey h c l) = None \<and>
    (\<forall>order.
       fst (fst (loadIsochronesConcurrently h l (c, e) (c', e') order m)) = None \<and>
       snd (fst (loadIsochronesConcurrently h l (c, e) (c', e') order m)) \<noteq> None \<and>
       fst (fst (loadIsochronesConcurrently h l (c', e') (c, e) order m)) \<noteq> None \<and>
       snd (fst (loadIsochronesConcurrently h l (c', e') (c, e) order m)) = None \<and>
       getSource (map' (snd (loadIsochronesConcurrently h l (c, e) (c', e') order m))) (sourceKey c l) \<and>
       getSource (map' (snd (loadIsochronesConcurrently h l (c', e') (c, e) order m))) (sourceKey c l) \<and>
       isochroneData (snd (loadIsochronesConcurrently h l (c, e) (c', e') order m)) (cacheKey h c l) = None \<and>
       isochroneData (snd (loadIsochronesConcurrently h l (c', e') (c, e) order m)) (cacheKey h c l) = None)"
proof -
  have keys: "cacheKey h c' l \<noteq> cacheKey h c l" "cacheKey h c l \<noteq> cacheKey h c' l"
    using sibling by (simp_all add: cacheKey_category)
  have sids: "sourceKey c' l \<noteq> sourceKey c l" "sourceKey c l \<noteq> sourceKey c' l"
    using sibling by (simp_all add: sourceKey_category)
  have single: "loadIsochrones h e l c m =
     (None,
      m\<lparr>currentLocation := Some l,
        map' := (map' m)\<lparr>sources := sources (map' m) @ [(sourceKey c l, sourceUrl h c l)]\<rparr>,
        pmtilesSources := (pmtilesSources m)(c \<mapsto> sourceKey c l)\<rparr>)"
    using miss fresh accept late by (rule loadIsochrones_timeout)
  have one: "fst (loadIsochrones h e l c m) = None \<and>
    getSource (map' (snd (loadIsochrones h e l c m))) (sourceKey c l) \<and>
    isochroneData (snd (loadIsochrones h e l c m)) (cacheKey h c l) = None"
    using miss by (simp add: single getSource_def)
  have two: "fst (fst (loadIsochronesConcurrently h l (c, e) (c', e') order m)) = None \<and>
       snd (fst (loadIsochronesConcurrently h l (c, e) (c', e') order m)) \<noteq> None \<and>
       getSource (map' (snd (loadIsochronesConcurrently h l (c, e) (c', e') order m))) (sourceKey c l) \<and>
       isochroneData (snd (loadIsochronesConcurrently h l (c, e) (c', e') order m)) (cacheKey h c l) = None" for order
    using miss fresh accept late accept' intime keys sids
    by (simp add: loadIsochronesConcurrently_def loadIsochrones_begin_def loadIsochrones_resume_def
        initializePMTilesSource_def settle_def addSource_def getSource_def Let_def
        split: option.splits)
  have three: "fst (fst (loadIsochronesConcurrently h l (c', e') (c, e) order m)) \<noteq> None \<and>
       snd (fst (loadIsochronesConcurrently h l (c', e') (c, e) order m)) = None \<and>
       getSource (map' (snd (loadIsochronesConcurrently h l (c', e') (c, e) order m))) (sourceKey c l) \<and>
       isochroneData (snd (loadIsochronesConcurrently h l (c', e') (c, e) order m)) (cacheKey h c l) = None" for order
    using miss fresh accept late accept' intime keys sids
    by (simp add: loadIsochronesConcurrently_def loadIsochrones_begin_def loadIsochrones_resume_def
        initializePMTilesSource_def settle_def addSource_def getSource_def Let_def
        split: option.splits)
  show ?thesis using one two three by blast
qed

theorem timeout_yields_null_witness:
  "isochroneData (constructor emptyMap) (cacheKey browser ''grocery'' portland) = None \<and>
   \<not> getSource (map' (constructor emptyMap)) (sourceKey ''grocery'' portland) \<and>
   \<not> addSourceThrows neverLoads (sourceKey ''grocery'' portland) \<and>
   \<not> sourceLoaded neverLoads (sourceKey ''grocery'' portland) \<and>
   ''coffee'' \<noteq> ''grocery'' \<and>
   \<not> addSourceThrows loadsInTime (sourceKey ''coffee'' portland) \<and>
   sourceLoaded loadsInTime (sourceKey ''coffee'' portland) \<and>
   fst (loadIsochrones browser neverLoads portland ''grocery'' (constructor emptyMap)) = None \<and>
   fst (loadIsochronesConcurrently browser portland (''grocery'', neverLoads) (''coffee'', loadsInTime)
          False (constructor emptyMap)) =
     (None, Some (createMockIsochroneData ''coffee'' portland)) \<and>
   getSource
     (map' (snd (loadIsochronesConcurrently browser portland (''grocery'', neverLoads)
                   (''coffee'', loadsInTime) False (constructor emptyMap))))
     ''isochrones-grocery-43659--70257'' \<and>
   isochroneData
     (snd (loadIsochronesConcurrently browser portland (''grocery'', neverLoads)
             (''coffee'', loadsInTime) False (constructor emptyMap)))
     ''grocery-43.6591--70.2568'' = None"
proof -
  have miss: "isochroneData (constructor emptyMap) (cacheKey browser ''grocery'' portland) = None"
    by (simp add: fresh_constructor)
  have fresh: "\<not> getSource (map' (constructor emptyMap)) (sourceKey ''grocery'' portland)"
    by (simp add: fresh_constructor not_getSource_emptyMap)
  have accept: "\<not> addSourceThrows neverLoads (sourceKey ''grocery'' portland)"
    by (simp add: neverLoads_def)
  have late: "\<not> sourceLoaded neverLoads (sourceKey ''grocery'' portland)"
    by (rule not_sourceLoaded_neverLoads)
  have sibling: "''coffee'' \<noteq> ''grocery''" by simp
  have accept': "\<not> addSourceThrows loadsInTime (sourceKey ''coffee'' portland)"
    by (simp add: loadsInTime_def)
  have intime: "sourceLoaded loadsInTime (sourceKey ''coffee'' portland)"
    by (rule sourceLoaded_loadsInTime) simp
  have coffee: "snd (fst (loadIsochronesConcurrently browser portland (''grocery'', neverLoads)
      (''coffee'', loadsInTime) False (constructor emptyMap))) =
      Some (createMockIsochroneData ''coffee'' portland)"
    using late intime accept accept'
    by (simp add: loadIsochronesConcurrently_def loadIsochrones_begin_def
        loadIsochrones_resume_def initializePMTilesSource_def settle_def addSource_def
        fresh_constructor not_getSource_emptyMap getSource_def Let_def sourceKey_portland)
  from timeout_yields_null [OF miss fresh accept late sibling accept' intime]
  have "fst (loadIsochrones browser neverLoads portland ''grocery'' (constructor emptyMap)) = None"
    and "fst (fst (loadIsochronesConcurrently browser portland (''grocery'', neverLoads)
      (''coffee'', loadsInTime) False (constructor emptyMap))) = None"
    and "getSource
     (map' (snd (loadIsochronesConcurrently browser portland (''grocery'', neverLoads)
                   (''coffee'', loadsInTime) False (constructor emptyMap))))
     (sourceKey ''grocery'' portland)"
    and "isochroneData
     (snd (loadIsochronesConcurrently browser portland (''grocery'', neverLoads)
             (''coffee'', loadsInTime) False (constructor emptyMap)))
     (cacheKey browser ''grocery'' portland) = None"
    by blast+
  then show ?thesis
    using miss fresh accept late accept' intime coffee
    by (simp add: prod_eq_iff sourceKey_portland cacheKey_portland)
qed

section \<open>The layer lifecycle\<close>

lemma layerIdsOf_removeIsochroneLayers:
  "layerIdsOf (map' (removeIsochroneLayers c m)) = layerIdsOf (map' m) - layerIds c"
  using removeIsochroneLayers_effect [of c m] by (auto simp add: layerIdsOf_def)

lemma layerId_other_category: "c' \<noteq> c \<Longrightarrow> layerId c' t \<notin> layerIds c"
  using layerId_inj by (auto simp add: layerIds_def)

text \<open>
  C4, as the code has it. When none of the layers of category \<open>c\<close> is in the active
  layer set, \<open>addIsochroneLayers\<close> followed by \<open>removeIsochroneLayers\<close> for \<open>c\<close> leaves
  the active layer set as it was before the add, whatever the rendering engine accepts;
  and when none of them is a layer of the map, the layers of the map are as before too.
\<close>

theorem add_then_remove_restores:
  "(layerIds c \<inter> activeLayers m = {} \<longrightarrow>
      activeLayers (removeIsochroneLayers c (addIsochroneLayers e c d m)) = activeLayers m) \<and>
   (layerIds c \<inter> layerIdsOf (map' m) = {} \<longrightarrow>
      layerIdsOf (map' (removeIsochroneLayers c (addIsochroneLayers e c d m))) =
        layerIdsOf (map' m))"
proof (intro conjI impI)
  assume "layerIds c \<inter> activeLayers m = {}"
  then show "activeLayers (removeIsochroneLayers c (addIsochroneLayers e c d m)) = activeLayers m"
    using addIsochroneLayers_effect [of m e c d]
      removeIsochroneLayers_effect [of c "addIsochroneLayers e c d m"]
    by auto
next
  assume "layerIds c \<inter> layerIdsOf (map' m) = {}"
  then show "layerIdsOf (map' (removeIsochroneLayers c (addIsochroneLayers e c d m))) =
      layerIdsOf (map' m)"
    using addIsochroneLayers_effect [of m e c d]
      layerIdsOf_removeIsochroneLayers [of c "addIsochroneLayers e c d m"]
    by auto
qed

theorem add_then_remove_restores_witness:
  "layerIds ''bar'' \<inter> activeLayers (snd (loadIsochrones browser loadsInTime portland ''bar'' coffeeShown)) = {} \<and>
   activeLayers (snd (loadIsochrones browser loadsInTime portland ''bar'' coffeeShown)) =
     {''coffee-isochrone-5'', ''coffee-isochrone-10'', ''coffee-isochrone-15''} \<and>
   activeLayers
     (addIsochroneLayers loadsInTime ''bar'' (createMockIsochroneData ''bar'' portland)
        (snd (loadIsochrones browser loadsInTime portland ''bar'' coffeeShown))) =
     {''coffee-isochrone-5'', ''coffee-isochrone-10'', ''coffee-isochrone-15'',
      ''bar-isochrone-5'', ''bar-isochrone-10'', ''bar-isochrone-15''} \<and>
   activeLayers
     (removeIsochroneLayers ''bar''
        (addIsochroneLayers loadsInTime ''bar'' (createMockIsochroneData ''bar'' portland)
           (snd (loadIsochrones browser loadsInTime portland ''bar'' coffeeShown)))) =
     {''coffee-isochrone-5'', ''coffee-isochrone-10'', ''coffee-isochrone-15''}"
proof -
  let ?m = "snd (loadIsochrones browser loadsInTime portland ''bar'' coffeeShown)"
  have act: "activeLayers ?m = layerIds ''coffee''"
    by (simp add: loadIsochrones_frame coffeeShown_state)
  have disjoint: "layerIds ''bar'' \<inter> activeLayers ?m = {}"
    by (simp add: act layerIds_eq)
  have miss: "isochroneData coffeeShown (cacheKey browser ''bar'' portland) = None"
    by (simp add: coffeeShown_state cacheKey_portland)
  have fresh: "\<not> getSource (map' coffeeShown) (sourceKey ''bar'' portland)"
    by (simp add: getSource_def coffeeShown_state sourceKey_portland)
  have accept: "\<not> addSourceThrows loadsInTime (sourceKey ''bar'' portland)"
    by (simp add: loadsInTime_def)
  have loaded: "sourceLoaded loadsInTime (sourceKey ''bar'' portland)"
    by (rule sourceLoaded_loadsInTime) simp
  have layers: "\<forall>cfg. \<not> addLayerThrows loadsInTime cfg" by (simp add: accepts_loadsInTime)
  have "generateIsochrones browser loadsInTime portland ''bar'' coffeeShown =
      addIsochroneLayers loadsInTime ''bar'' (createMockIsochroneData ''bar'' portland) ?m"
    by (simp add: generateIsochrones_def loadIsochrones_loaded [OF miss fresh accept loaded])
  then have added: "activeLayers
      (addIsochroneLayers loadsInTime ''bar'' (createMockIsochroneData ''bar'' portland) ?m) =
      layerIds ''coffee'' \<union> layerIds ''bar''"
    using generateIsochrones_fresh(1) [OF miss fresh accept loaded layers]
    by (simp add: coffeeShown_state)
  from add_then_remove_restores [of "''bar''" ?m loadsInTime
      "createMockIsochroneData ''bar'' portland"] disjoint
  have "activeLayers
     (removeIsochroneLayers ''bar''
        (addIsochroneLayers loadsInTime ''bar'' (createMockIsochroneData ''bar'' portland) ?m)) =
     activeLayers ?m"
    by blast
  then have c4: "activeLayers
     (removeIsochroneLayers ''bar''
        (addIsochroneLayers loadsInTime ''bar'' (createMockIsochroneData ''bar'' portland) ?m)) =
     {''coffee-isochrone-5'', ''coffee-isochrone-10'', ''coffee-isochrone-15''}"
    by (simp add: act layerIds_eq)
  have c2: "activeLayers ?m =
     {''coffee-isochrone-5'', ''coffee-isochrone-10'', ''coffee-isochrone-15''}"
    by (simp add: act layerIds_eq)
  have c3: "activeLayers
     (addIsochroneLayers loadsInTime ''bar'' (createMockIsochroneData ''bar'' portland) ?m) =
     {''coffee-isochrone-5'', ''coffee-isochrone-10'', ''coffee-isochrone-15'',
      ''bar-isochrone-5'', ''bar-isochrone-10'', ''bar-isochrone-15''}"
    by (auto simp add: added layerIds_eq)
  from disjoint c2 c3 c4 show ?thesis by (intro conjI)
qed

text \<open>
  C4 as stated fails when the layers of the category are already shown: adding them again
  changes nothing, and the removal then takes them out, so the active layer set (and the
  map) ends without the three layers it held before the add.
\<close>

theorem add_then_remove_removes_shown_layers:
  "activeLayers coffeeShown =
     {''coffee-isochrone-5'', ''coffee-isochrone-10'', ''coffee-isochrone-15''} \<and>
   layerIdsOf (map' coffeeShown) =
     {''coffee-isochrone-5'', ''coffee-isochrone-10'', ''coffee-isochrone-15''} \<and>
   activeLayers
     (removeIsochroneLayers ''coffee''
        (addIsochroneLayers loadsInTime ''coffee'' (createMockIsochroneData ''coffee'' portland)
           coffeeShown)) = {} \<and>
   layerIdsOf
     (map' (removeIsochroneLayers ''coffee''
        (addIsochroneLayers loadsInTime ''coffee'' (createMockIsochroneData ''coffee'' portland)
           coffeeShown))) = {}"
proof -
  let ?a = "addIsochroneLayers loadsInTime ''coffee'' (createMockIsochroneData ''coffee'' portland)
           coffeeShown"
  have src: "pmtilesSources coffeeShown ''coffee'' = Some (sourceKey ''coffee'' portland)"
    by (simp add: coffeeShown_state)
  note add = addIsochroneLayers_active [OF src sourceKey_nonempty coffeeShown_state(5),
      of loadsInTime "createMockIsochroneData ''coffee'' portland"]
  have all: "acceptedIds loadsInTime ''coffee'' (sourceKey ''coffee'' portland) portland timeIntervals =
      layerIds ''coffee''"
    by (simp add: acceptedIds_def acceptedBands_def layerIds_def accepts_loadsInTime)
  have a: "activeLayers ?a = layerIds ''coffee''" and b: "layerIdsOf (map' ?a) = layerIds ''coffee''"
    using add(1,2) by (simp_all add: all coffeeShown_state)
  then have "activeLayers (removeIsochroneLayers ''coffee'' ?a) = {}"
    using removeIsochroneLayers_effect [of "''coffee''" ?a] by simp
  moreover have "layerIdsOf (map' (removeIsochroneLayers ''coffee'' ?a)) = {}"
    using b by (simp add: layerIdsOf_removeIsochroneLayers)
  moreover have "activeLayers coffeeShown =
     {''coffee-isochrone-5'', ''coffee-isochrone-10'', ''coffee-isochrone-15''}"
    by (simp add: coffeeShown_state layerIds_eq)
  moreover have "layerIdsOf (map' coffeeShown) =
     {''coffee-isochrone-5'', ''coffee-isochrone-10'', ''coffee-isochrone-15''}"
    by (simp add: coffeeShown_state layerIds_eq)
  ultimately show ?thesis by (intro conjI)
qed

text \<open>
  C5. \<open>removeIsochroneLayers\<close> takes out of the map exactly the layers whose identifier
  is derived from the category and a configured band, and leaves every layer of another
  category where it was, in the map and in the active layer set. On a manager whose
  active layers are layers of the map (every state the manager's operations reach) the
  active layer set afterwards is the one before minus the category's identifiers.
\<close>

theorem remove_only_own_layers:
  "layers (map' (removeIsochroneLayers c m)) =
     filter (\<lambda>cfg. layer_id cfg \<notin> layerIds c) (layers (map' m)) \<and>
   layerIdsOf (map' (removeIsochroneLayers c m)) = layerIdsOf (map' m) - layerIds c \<and>
   activeLayers (removeIsochroneLayers c m) =
     activeLayers m - (layerIds c \<inter> layerIdsOf (map' m)) \<and>
   (\<forall>c' t. c' \<noteq> c \<longrightarrow>
      (layerId c' t \<in> activeLayers (removeIsochroneLayers c m) \<longleftrightarrow> layerId c' t \<in> activeLayers m) \<and>
      (getLayer (map' (removeIsochroneLayers c m)) (layerId c' t) \<longleftrightarrow>
         getLayer (map' m) (layerId c' t))) \<and>
   (consistent m \<longrightarrow>
      activeLayers (removeIsochroneLayers c m) = activeLayers m - layerIds c \<and>
      consistent (removeIsochroneLayers c m))"
proof (intro conjI impI allI)
  show "layers (map' (removeIsochroneLayers c m)) =
      filter (\<lambda>cfg. layer_id cfg \<notin> layerIds c) (layers (map' m))"
    using removeIsochroneLayers_effect [of c m] by simp
  show "layerIdsOf (map' (removeIsochroneLayers c m)) = layerIdsOf (map' m) - layerIds c"
    by (rule layerIdsOf_removeIsochroneLayers)
  show act: "activeLayers (removeIsochroneLayers c m) =
      activeLayers m - (layerIds c \<inter> layerIdsOf (map' m))"
    using removeIsochroneLayers_effect [of c m] by simp
  {
    fix c' t
    assume "c' \<noteq> c"
    then have other: "layerId c' t \<notin> layerIds c" by (rule layerId_other_category)
    then show "layerId c' t \<in> activeLayers (removeIsochroneLayers c m) \<longleftrightarrow>
        layerId c' t \<in> activeLayers m"
      using act by auto
    show "getLayer (map' (removeIsochroneLayers c m)) (layerId c' t) \<longleftrightarrow>
        getLayer (map' m) (layerId c' t)"
      using other layerIdsOf_removeIsochroneLayers [of c m]
      by (simp add: getLayer_def layerIdsOf_def [symmetric])
  }
  {
    assume "consistent m"
    then show "activeLayers (removeIsochroneLayers c m) = activeLayers m - layerIds c"
      using act unfolding consistent_alt by blast
    show "consistent (removeIsochroneLayers c m)"
      using \<open>consistent m\<close> by (rule consistent_removeIsochroneLayers)
  }
qed

theorem remove_only_own_layers_witness:
  "consistent allShown \<and>
   ''coffee'' \<noteq> ''grocery'' \<and>
   activeLayers allShown =
     {''coffee-isochrone-5'', ''coffee-isochrone-10'', ''coffee-isochrone-15'',
      ''bar-isochrone-5'', ''bar-isochrone-10'', ''bar-isochrone-15'',
      ''grocery-isochrone-5'', ''grocery-isochrone-10'', ''grocery-isochrone-15''} \<and>
   activeLayers (removeIsochroneLayers ''grocery'' allShown) =
     {''coffee-isochrone-5'', ''coffee-isochrone-10'', ''coffee-isochrone-15'',
      ''bar-isochrone-5'', ''bar-isochrone-10'', ''bar-isochrone-15''} \<and>
   ''coffee-isochrone-10'' \<in> activeLayers (removeIsochroneLayers ''grocery'' allShown)"
proof -
  have before: "activeLayers allShown =
     {''coffee-isochrone-5'', ''coffee-isochrone-10'', ''coffee-isochrone-15'',
      ''bar-isochrone-5'', ''bar-isochrone-10'', ''bar-isochrone-15'',
      ''grocery-isochrone-5'', ''grocery-isochrone-10'', ''grocery-isochrone-15''}"
    by (auto simp add: allShown_active layerIds_eq)
  have ne: "''coffee'' \<noteq> ''grocery''" by simp
  note main = remove_only_own_layers [of "''grocery''" allShown]
  have "activeLayers (removeIsochroneLayers ''grocery'' allShown) =
      activeLayers allShown - layerIds ''grocery''"
    using main consistent_allShown by (elim conjE) simp
  then have after: "activeLayers (removeIsochroneLayers ''grocery'' allShown) =
     {''coffee-isochrone-5'', ''coffee-isochrone-10'', ''coffee-isochrone-15'',
      ''bar-isochrone-5'', ''bar-isochrone-10'', ''bar-isochrone-15''}"
    by (simp add: before layerIds_eq insert_Diff_if)
  have frame: "\<forall>c' t. c' \<noteq> ''grocery'' \<longrightarrow>
      (layerId c' t \<in> activeLayers (removeIsochroneLayers ''grocery'' allShown) \<longleftrightarrow>
         layerId c' t \<in> activeLayers allShown) \<and>
      (getLayer (map' (removeIsochroneLayers ''grocery'' allShown)) (layerId c' t) \<longleftrightarrow>
         getLayer (map' allShown) (layerId c' t))"
    using main by (elim conjE) assumption
  have "layerId ''coffee'' 10 \<in> activeLayers (removeIsochroneLayers ''grocery'' allShown) \<longleftrightarrow>
       layerId ''coffee'' 10 \<in> activeLayers allShown"
    using frame [rule_format, OF ne, of 10] by (rule conjunct1)
  then have kept: "''coffee-isochrone-10'' \<in> activeLayers (removeIsochroneLayers ''grocery'' allShown)"
    by (simp add: before layerId_bands)
  from consistent_allShown ne before after kept show ?thesis by (intro conjI)
qed

text \<open>
  C6. With a source recorded for the category and a current location, the layers active
  after \<open>addIsochroneLayers\<close> are those active before and one for every band whose
  \<open>addLayer\<close> call does not throw: a band whose call throws is skipped, and each of the
  other bands gets its layer, in the active layer set and in the map.
\<close>

theorem rejected_band_does_not_stop_the_others:
  assumes "pmtilesSources m c = Some src" and "src \<noteq> []" and "currentLocation m = Some l"
  shows "activeLayers (addIsochroneLayers e c d m) =
      activeLayers m \<union> layerId c ` set (acceptedBands e c src l timeIntervals) \<and>
    layerIdsOf (map' (addIsochroneLayers e c d m)) =
      layerIdsOf (map' m) \<union> layerId c ` set (acceptedBands e c src l timeIntervals) \<and>
    (\<forall>t \<in> set timeIntervals. \<not> addLayerThrows e (builtLayerConfig c src l t) \<longrightarrow>
       layerId c t \<in> activeLayers (addIsochroneLayers e c d m) \<and>
       getLayer (map' (addIsochroneLayers e c d m)) (layerId c t))"
proof -
  have "layerId c t \<in> acceptedIds e c src l timeIntervals"
    if "t \<in> set timeIntervals" and "\<not> addLayerThrows e (builtLayerConfig c src l t)" for t
    using that by (simp add: acceptedIds_def acceptedBands_def)
  then show ?thesis
    using addIsochroneLayers_active(1,2) [OF assms, of e d]
    by (simp add: getLayer_def layerIdsOf_def [symmetric] acceptedIds_def [symmetric])
qed

theorem rejected_band_does_not_stop_the_others_witness:
  "pmtilesSources (snd (loadIsochrones browser loadsInTime portland ''coffee'' (constructor emptyMap)))
     ''coffee'' = Some ''isochrones-coffee-43659--70257'' \<and>
   ''isochrones-coffee-43659--70257'' \<noteq> [] \<and>
   currentLocation (snd (loadIsochrones browser loadsInTime portland ''coffee'' (constructor emptyMap))) =
     Some portland \<and>
   addLayerThrows rejectsTen
     (builtLayerConfig ''coffee'' ''isochrones-coffee-43659--70257'' portland 10) \<and>
   \<not> addLayerThrows rejectsTen
     (builtLayerConfig ''coffee'' ''isochrones-coffee-43659--70257'' portland 15) \<and>
   activeLayers (addIsochroneLayers rejectsTen ''coffee'' (createMockIsochroneData ''coffee'' portland)
       (snd (loadIsochrones browser loadsInTime portland ''coffee'' (constructor emptyMap)))) =
     {''coffee-isochrone-5'', ''coffee-isochrone-15''} \<and>
   getLayer
     (map' (addIsochroneLayers rejectsTen ''coffee'' (createMockIsochroneData ''coffee'' portland)
        (snd (loadIsochrones browser loadsInTime portland ''coffee'' (constructor emptyMap)))))
     ''coffee-isochrone-15''"
proof -
  let ?m = "snd (loadIsochrones browser loadsInTime portland ''coffee'' (constructor emptyMap))"
  have src: "pmtilesSources ?m ''coffee'' = Some ''isochrones-coffee-43659--70257''"
    using fresh_load_state(1) [of "''coffee''"] by (simp add: sourceKey_portland)
  have ne: "''isochrones-coffee-43659--70257'' \<noteq> []" by simp
  have loc: "currentLocation ?m = Some portland"
    by (rule currentLocation_loadIsochrones)
  have ten: "addLayerThrows rejectsTen
     (builtLayerConfig ''coffee'' ''isochrones-coffee-43659--70257'' portland 10)"
    by (simp add: rejectsTen_def layer_id_builtLayerConfig layerId_bands)
  have fifteen: "\<not> addLayerThrows rejectsTen
     (builtLayerConfig ''coffee'' ''isochrones-coffee-43659--70257'' portland 15)"
    by (simp add: rejectsTen_def layer_id_builtLayerConfig layerId_bands)
  have act: "activeLayers ?m = {}" using fresh_load_state(3) [of "''coffee''"] by simp
  have in15: "15 \<in> set timeIntervals" by (simp add: timeIntervals_def)
  note main = rejected_band_does_not_stop_the_others [OF src ne loc, of rejectsTen
      "createMockIsochroneData ''coffee'' portland"]
  have a: "activeLayers (addIsochroneLayers rejectsTen ''coffee''
        (createMockIsochroneData ''coffee'' portland) ?m) =
      {''coffee-isochrone-5'', ''coffee-isochrone-15''}"
    using main by (simp add: act acceptedBands_rejectsTen layerId_bands)
  have "getLayer (map' (addIsochroneLayers rejectsTen ''coffee''
        (createMockIsochroneData ''coffee'' portland) ?m)) (layerId ''coffee'' 15)"
    using main in15 fifteen by blast
  with a have "activeLayers (addIsochroneLayers rejectsTen ''coffee''
        (createMockIsochroneData ''coffee'' portland) ?m) =
      {''coffee-isochrone-5'', ''coffee-isochrone-15''} \<and>
    getLayer (map' (addIsochroneLayers rejectsTen ''coffee''
        (createMockIsochroneData ''coffee'' portland) ?m)) ''coffee-isochrone-15''"
    by (simp add: layerId_bands)
  then show ?thesis using src ne loc ten fifteen by blast
qed

text \<open>
  C9. At latitude 43.6591 and longitude -70.2568, after a load of coffee that returned a
  descriptor on a new manager over a map that has no layer named like a coffee layer, and
  with the rendering engine accepting the three layers, \<open>addIsochroneLayers\<close> leaves the
  active layer set equal to the three identifiers coffee-isochrone-5, coffee-isochrone-10,
  coffee-isochrone-15, and it has added to the map exactly three layers, with these
  identifiers and each with fill opacity 0.6.
\<close>

theorem coffee_layers_at_portland:
  assumes load: "loadIsochrones h e1 portland ''coffee'' (constructor r) = (Some d, m)"
    and unused: "layerIds ''coffee'' \<inter> layerIdsOf r = {}"
    and accept: "\<forall>t \<in> set timeIntervals.
      \<not> addLayerThrows e2 (builtLayerConfig ''coffee'' (sourceKey ''coffee'' portland) portland t)"
  shows "activeLayers (addIsochroneLayers e2 ''coffee'' d m) =
      {''coffee-isochrone-5'', ''coffee-isochrone-10'', ''coffee-isochrone-15''} \<and>
    layers (map' (addIsochroneLayers e2 ''coffee'' d m)) =
      layers r @
        map (builtLayerConfig ''coffee'' (sourceKey ''coffee'' portland) portland) [5, 10, 15] \<and>
    map (\<lambda>cfg. (layer_id cfg, fill_opacity cfg))
      (map (builtLayerConfig ''coffee'' (sourceKey ''coffee'' portland) portland) [5, 10, 15]) =
      [(''coffee-isochrone-5'', 0.6), (''coffee-isochrone-10'', 0.6), (''coffee-isochrone-15'', 0.6)]"
proof -
  have m: "m = snd (loadIsochrones h e1 portland ''coffee'' (constructor r))"
    using load by simp
  have src: "pmtilesSources m ''coffee'' = Some (sourceKey ''coffee'' portland)"
    using load by (rule loadIsochrones_pmtilesSources) (simp add: fresh_constructor)
  have loc: "currentLocation m = Some portland"
    using loadIsochrones_Some [OF load] by simp
  have act: "activeLayers m = {}" and lay: "layers (map' m) = layers r"
    using loadIsochrones_frame [of h e1 portland "''coffee''" "constructor r"]
    by (simp_all add: m fresh_constructor)
  have all: "acceptedBands e2 ''coffee'' (sourceKey ''coffee'' portland) portland timeIntervals =
      timeIntervals"
    using accept by (simp add: acceptedBands_def)
  have none: "layerIds ''coffee'' \<inter> layerIdsOf (map' m) = {}"
    using unused by (simp add: layerIdsOf_def lay)
  have "activeLayers (addIsochroneLayers e2 ''coffee'' d m) = layerIds ''coffee''"
    using addIsochroneLayers_active(1) [OF src sourceKey_nonempty loc, of e2 d]
    by (simp add: act acceptedIds_def all layerIds_def)
  then have a: "activeLayers (addIsochroneLayers e2 ''coffee'' d m) =
      {''coffee-isochrone-5'', ''coffee-isochrone-10'', ''coffee-isochrone-15''}"
    by (simp add: layerIds_eq)
  have "layers (map' (addIsochroneLayers e2 ''coffee'' d m)) =
      layers r @
        map (builtLayerConfig ''coffee'' (sourceKey ''coffee'' portland) portland) timeIntervals"
    using addIsochroneLayers_layers [OF src sourceKey_nonempty loc none, of e2 d]
    by (simp add: lay all)
  then have b: "layers (map' (addIsochroneLayers e2 ''coffee'' d m)) =
      layers r @
        map (builtLayerConfig ''coffee'' (sourceKey ''coffee'' portland) portland) [5, 10, 15]"
    by (simp add: timeIntervals_def)
  have c: "map (\<lambda>cfg. (layer_id cfg, fill_opacity cfg))
      (map (builtLayerConfig ''coffee'' (sourceKey ''coffee'' portland) portland) [5, 10, 15]) =
      [(''coffee-isochrone-5'', 0.6), (''coffee-isochrone-10'', 0.6), (''coffee-isochrone-15'', 0.6)]"
    by (simp add: fill_opacity_builtLayerConfig layer_id_builtLayerConfig layerId_bands)
  from a b c show ?thesis by (intro conjI)
qed

theorem coffee_layers_at_portland_witness:
  "loadIsochrones browser loadsInTime portland ''coffee'' (constructor emptyMap) =
     (Some (createMockIsochroneData ''coffee'' portland),
      snd (loadIsochrones browser loadsInTime portland ''coffee'' (constructor emptyMap))) \<and>
   layerIds ''coffee'' \<inter> layerIdsOf emptyMap = {} \<and>
   activeLayers coffeeShown =
     {''coffee-isochrone-5'', ''coffee-isochrone-10'', ''coffee-isochrone-15''} \<and>
   map (\<lambda>cfg. (layer_id cfg, fill_opacity cfg)) (layers (map' coffeeShown)) =
     [(''coffee-isochrone-5'', 0.6), (''coffee-isochrone-10'', 0.6), (''coffee-isochrone-15'', 0.6)]"
proof -
  have load: "loadIsochrones browser loadsInTime portland ''coffee'' (constructor emptyMap) =
     (Some (createMockIsochroneData ''coffee'' portland),
      snd (loadIsochrones browser loadsInTime portland ''coffee'' (constructor emptyMap)))"
    by (rule fresh_load) simp
  have unused: "layerIds ''coffee'' \<inter> layerIdsOf emptyMap = {}"
    by (simp add: layerIdsOf_def emptyMap_def)
  have accept: "\<forall>t \<in> set timeIntervals. \<not> addLayerThrows loadsInTime
      (builtLayerConfig ''coffee'' (sourceKey ''coffee'' portland) portland t)"
    by (simp add: accepts_loadsInTime)
  have shown: "coffeeShown = addIsochroneLayers loadsInTime ''coffee''
      (createMockIsochroneData ''coffee'' portland)
      (snd (loadIsochrones browser loadsInTime portland ''coffee'' (constructor emptyMap)))"
    unfolding coffeeShown_def generateIsochrones_def by (subst load) simp
  note main = coffee_layers_at_portland [OF load unused accept]
  have a: "activeLayers coffeeShown =
     {''coffee-isochrone-5'', ''coffee-isochrone-10'', ''coffee-isochrone-15''}"
    using main unfolding shown by (rule conjunct1)
  have "layers (map' coffeeShown) =
      layers emptyMap @
        map (builtLayerConfig ''coffee'' (sourceKey ''coffee'' portland) portland) [5, 10, 15]"
    using main unfolding shown by (elim conjE) assumption
  moreover have "map (\<lambda>cfg. (layer_id cfg, fill_opacity cfg))
      (map (builtLayerConfig ''coffee'' (sourceKey ''coffee'' portland) portland) [5, 10, 15]) =
      [(''coffee-isochrone-5'', 0.6), (''coffee-isochrone-10'', 0.6), (''coffee-isochrone-15'', 0.6)]"
    using main by (elim conjE) assumption
  ultimately have b: "map (\<lambda>cfg. (layer_id cfg, fill_opacity cfg)) (layers (map' coffeeShown)) =
     [(''coffee-isochrone-5'', 0.6), (''coffee-isochrone-10'', 0.6), (''coffee-isochrone-15'', 0.6)]"
    by (simp add: emptyMap_def)
  from load unused a b show ?thesis by (intro conjI)
qed

section \<open>The style lookup\<close>

lemma manager_tables:
  "IsochroneManager_fillColors = fillColors" "IsochroneManager_outlineColors = outlineColors"
  by (simp_all add: IsochroneManager_fillColors_def fillColors_def
      IsochroneManager_outlineColors_def outlineColors_def)

lemma manager_copies:
  "IsochroneManager_getIsochroneColor poiType t = getIsochroneColor poiType t"
  "IsochroneManager_getIsochroneOutlineColor poiType t = getIsochroneOutlineColor poiType t"
  unfolding IsochroneManager_getIsochroneColor_def getIsochroneColor_def
    IsochroneManager_getIsochroneOutlineColor_def getIsochroneOutlineColor_def manager_tables
  by (rule refl)+

lemma coffee_colors:
  "getIsochroneColor ''coffee'' t =
     (if t = 5 then Some ''rgba(146, 64, 14, 0.3)''
      else if t = 10 then Some ''rgba(146, 64, 14, 0.5)''
      else if t = 15 then Some ''rgba(146, 64, 14, 0.7)'' else None)"
  "getIsochroneOutlineColor ''coffee'' t = Color ''#92400e''"
  by (simp_all add: getIsochroneColor_def getIsochroneOutlineColor_def getProperty_def
      fillColors_def outlineColors_def coffeeFill_def)

lemma unknown_category_fill:
  "poiType \<notin> {''coffee'', ''bar'', ''grocery''} \<Longrightarrow>
   getIsochroneColor poiType t = getIsochroneColor ''coffee'' t"
  by (simp add: getIsochroneColor_def getProperty_def fillColors_def coffeeFill_def)

lemma unknown_category_outline:
  "poiType \<notin> {''coffee'', ''bar'', ''grocery''} \<Longrightarrow> poiType \<notin> set objectPrototypeKeys \<Longrightarrow>
   getIsochroneOutlineColor poiType t = Color ''#92400e''"
  by (simp add: getIsochroneOutlineColor_def getProperty_def outlineColors_def)

lemma recognized_iff:
  "recognized poiType t \<longleftrightarrow> poiType \<in> {''coffee'', ''bar'', ''grocery''} \<and> t \<in> {5, 10, 15}"
  by (auto simp add: recognized_def fillColors_def split: if_splits)

lemma unknown_band:
  "t \<notin> {5, 10, 15} \<Longrightarrow> getIsochroneColor poiType t = None"
  by (simp add: getIsochroneColor_def getProperty_def fillColors_def coffeeFill_def)

lemma known_category_outline:
  "getIsochroneOutlineColor ''bar'' t = Color ''#dc2626''"
  "getIsochroneOutlineColor ''grocery'' t = Color ''#fbbf24''"
  by (simp_all add: getIsochroneOutlineColor_def getProperty_def outlineColors_def)

text \<open>
  C8, as the code has it. The lookup is a function of category and band alone, the same
  in map-config.js and in the manager. For a category other than coffee, bar and grocery
  the fill is coffee's fill for the band, and the outline is coffee's outline when the
  category is not the name of a member of \<open>Object.prototype\<close>. For one of the three
  categories with a band the table does not have, the fill is coffee's entry for that
  band and the outline stays the category's own. Coffee has a fill for the bands 5, 10
  and 15 and for no other band.
\<close>

theorem style_lookup_fallback:
  "IsochroneManager_getIsochroneColor poiType t = getIsochroneColor poiType t \<and>
   IsochroneManager_getIsochroneOutlineColor poiType t = getIsochroneOutlineColor poiType t \<and>
   (poiType \<notin> {''coffee'', ''bar'', ''grocery''} \<longrightarrow>
      getIsochroneColor poiType t = getIsochroneColor ''coffee'' t \<and>
      (poiType \<notin> set objectPrototypeKeys \<longrightarrow>
         getIsochroneOutlineColor poiType t = getIsochroneOutlineColor ''coffee'' t)) \<and>
   (poiType \<in> {''coffee'', ''bar'', ''grocery''} \<longrightarrow> \<not> recognized poiType t \<longrightarrow>
      getIsochroneColor poiType t = getIsochroneColor ''coffee'' t \<and>
      getIsochroneOutlineColor poiType t = Color (the (map_of outlineColors poiType))) \<and>
   (t \<in> {5, 10, 15} \<longrightarrow> getIsochroneColor ''coffee'' t \<noteq> None) \<and>
   (t \<notin> {5, 10, 15} \<longrightarrow> getIsochroneColor poiType t = None) \<and>
   getIsochroneOutlineColor ''coffee'' t = Color ''#92400e''"
proof (intro conjI impI)
  show "IsochroneManager_getIsochroneColor poiType t = getIsochroneColor poiType t"
    by (rule manager_copies)
  show "IsochroneManager_getIsochroneOutlineColor poiType t = getIsochroneOutlineColor poiType t"
    by (rule manager_copies)
  show "getIsochroneOutlineColor ''coffee'' t = Color ''#92400e''"
    by (rule coffee_colors)
next
  assume "poiType \<notin> {''coffee'', ''bar'', ''grocery''}"
  then show "getIsochroneColor poiType t = getIsochroneColor ''coffee'' t"
    by (rule unknown_category_fill)
next
  assume "poiType \<notin> {''coffee'', ''bar'', ''grocery''}" and "poiType \<notin> set objectPrototypeKeys"
  then show "getIsochroneOutlineColor poiType t = getIsochroneOutlineColor ''coffee'' t"
    by (simp add: unknown_category_outline coffee_colors)
next
  assume known: "poiType \<in> {''coffee'', ''bar'', ''grocery''}" and "\<not> recognized poiType t"
  then have band: "t \<notin> {5, 10, 15}" by (simp add: recognized_iff)
  show "getIsochroneColor poiType t = getIsochroneColor ''coffee'' t"
    using band by (simp add: unknown_band)
  show "getIsochroneOutlineColor poiType t = Color (the (map_of outlineColors poiType))"
    using known by (auto simp add: coffee_colors known_category_outline outlineColors_def)
next
  assume "t \<in> {5, 10, 15}"
  then show "getIsochroneColor ''coffee'' t \<noteq> None" by (auto simp add: coffee_colors)
next
  assume "t \<notin> {5, 10, 15}"
  then show "getIsochroneColor poiType t = None" by (rule unknown_band)
qed

theorem style_lookup_fallback_witness:
  "''park'' \<notin> {''coffee'', ''bar'', ''grocery''} \<and> ''park'' \<notin> set objectPrototypeKeys \<and>
   (10::nat) \<in> {5, 10, 15} \<and>
   getIsochroneColor ''park'' 10 = Some ''rgba(146, 64, 14, 0.5)'' \<and>
   getIsochroneOutlineColor ''park'' 10 = Color ''#92400e'' \<and>
   ''grocery'' \<in> {''coffee'', ''bar'', ''grocery''} \<and> \<not> recognized ''grocery'' 7 \<and>
   (7::nat) \<notin> {5, 10, 15} \<and>
   getIsochroneColor ''grocery'' 7 = None \<and>
   getIsochroneOutlineColor ''grocery'' 7 = Color ''#fbbf24''"
proof -
  have a: "''park'' \<notin> {''coffee'', ''bar'', ''grocery''}" by simp
  have b: "''park'' \<notin> set objectPrototypeKeys" by (simp add: objectPrototypeKeys_def)
  have c: "(10::nat) \<in> {5, 10, 15}" by simp
  have d: "''grocery'' \<in> {''coffee'', ''bar'', ''grocery''}" by simp
  have e: "\<not> recognized ''grocery'' 7" by (simp add: recognized_def fillColors_def)
  have f: "(7::nat) \<notin> {5, 10, 15}" by simp
  have coffee: "getIsochroneColor ''coffee'' 10 = Some ''rgba(146, 64, 14, 0.5)''"
    by (simp add: getIsochroneColor_def getProperty_def fillColors_def)
  have outline: "the (map_of outlineColors ''grocery'') = ''#fbbf24''"
    by (simp add: outlineColors_def)
  note p = style_lookup_fallback [of "''park''" 10]
  have "getIsochroneColor ''park'' 10 = getIsochroneColor ''coffee'' 10" using p a by blast
  moreover have "getIsochroneOutlineColor ''park'' 10 = getIsochroneOutlineColor ''coffee'' 10"
    using p a b by blast
  moreover have "getIsochroneOutlineColor ''coffee'' 10 = Color ''#92400e''" using p by blast
  ultimately have park: "getIsochroneColor ''park'' 10 = Some ''rgba(146, 64, 14, 0.5)'' \<and>
      getIsochroneOutlineColor ''park'' 10 = Color ''#92400e''"
    using coffee by simp
  note g = style_lookup_fallback [of "''grocery''" 7]
  have "getIsochroneColor ''grocery'' 7 = None" using g f by blast
  moreover have "getIsochroneOutlineColor ''grocery'' 7 = Color (the (map_of outlineColors ''grocery''))"
    using g d e by blast
  ultimately have "getIsochroneColor ''grocery'' 7 = None \<and>
      getIsochroneOutlineColor ''grocery'' 7 = Color ''#fbbf24''"
    using outline by simp
  with park show ?thesis using a b c d e f by blast
qed

text \<open>
  C8 as stated fails at the pair (bar, 7), which the table does not have: the outline is
  bar's, not coffee's, and there is no fill at all.
\<close>

theorem unrecognized_band_keeps_own_outline:
  "\<not> recognized ''bar'' 7 \<and>
   getIsochroneColor ''bar'' 7 = None \<and>
   getIsochroneOutlineColor ''bar'' 7 = Color ''#dc2626'' \<and>
   getIsochroneOutlineColor ''coffee'' 7 = Color ''#92400e''"
  by (simp add: recognized_def getIsochroneColor_def getIsochroneOutlineColor_def getProperty_def
      fillColors_def outlineColors_def coffeeFill_def)

text \<open>A category named like a member of \<open>Object.prototype\<close> gets that member, not a
  colour, as its outline.\<close>

lemma outline_of_inherited_name: "getIsochroneOutlineColor ''toString'' 5 = PrototypeMember ''toString''"
  by (simp add: getIsochroneOutlineColor_def getProperty_def outlineColors_def objectPrototypeKeys_def)

section \<open>Statistics\<close>

lemma statsOf_empty:
  "features d = Some [] \<Longrightarrow>
   statsOf (Some d) = Some \<lparr>total = 0, byTime = [5 \<mapsto> 0, 10 \<mapsto> 0, 15 \<mapsto> 0]\<rparr>"
  by (simp add: statsOf_def timeIntervals_def)

text \<open>
  C7. \<open>getStatistics\<close> returns null when the cache has no entry under the key of the
  category at the current location, as on a manager that has loaded nothing and has no
  location. After a load that returned a descriptor with an empty feature list it returns
  total 0 and a per-band map that gives 0 to each of the bands 5, 10 and 15.
\<close>

theorem getStatistics_null_or_zero:
  "(isochroneData m (statsKey h c (currentLocation m)) = None \<longrightarrow> getStatistics h c m = None) \<and>
   getStatistics h c (constructor r) = None \<and>
   (loadIsochrones h e l c m = (Some d, m') \<longrightarrow> features d = Some [] \<longrightarrow>
      getStatistics h c m' = Some \<lparr>total = 0, byTime = [5 \<mapsto> 0, 10 \<mapsto> 0, 15 \<mapsto> 0]\<rparr>)"
proof (intro conjI impI)
  assume "isochroneData m (statsKey h c (currentLocation m)) = None"
  then show "getStatistics h c m = None"
    by (simp add: getStatistics_def statsOf_def)
next
  show "getStatistics h c (constructor r) = None"
    by (simp add: getStatistics_def statsOf_def constructor_def)
next
  assume "loadIsochrones h e l c m = (Some d, m')" and empty: "features d = Some []"
  then have "isochroneData m' (cacheKey h c l) = Some d" and "currentLocation m' = Some l"
    using loadIsochrones_Some by blast+
  then show "getStatistics h c m' = Some \<lparr>total = 0, byTime = [5 \<mapsto> 0, 10 \<mapsto> 0, 15 \<mapsto> 0]\<rparr>"
    by (simp add: getStatistics_def statsKey_Some statsOf_empty [OF empty])
qed

theorem getStatistics_null_or_zero_witness:
  "isochroneData (constructor emptyMap)
     (statsKey browser ''bar'' (currentLocation (constructor emptyMap))) = None \<and>
   getStatistics browser ''bar'' (constructor emptyMap) = None \<and>
   fst (loadIsochrones browser loadsInTime portland ''bar'' (constructor emptyMap)) =
     Some (createMockIsochroneData ''bar'' portland) \<and>
   features (createMockIsochroneData ''bar'' portland) = Some [] \<and>
   getStatistics browser ''bar''
     (snd (loadIsochrones browser loadsInTime portland ''bar'' (constructor emptyMap))) =
     Some \<lparr>total = 0, byTime = [5 \<mapsto> 0, 10 \<mapsto> 0, 15 \<mapsto> 0]\<rparr>"
proof -
  have fresh: "isochroneData (constructor emptyMap)
      (statsKey browser ''bar'' (currentLocation (constructor emptyMap))) = None"
    by (simp add: constructor_def)
  have empty: "features (createMockIsochroneData ''bar'' portland) = Some []"
    by (simp add: createMockIsochroneData_def)
  have fst_load: "fst (loadIsochrones browser loadsInTime portland ''bar'' (constructor emptyMap)) =
      Some (createMockIsochroneData ''bar'' portland)"
    using fresh_load_bar by (metis fst_conv)
  show ?thesis
    using getStatistics_null_or_zero [of "constructor emptyMap" browser "''bar''" emptyMap
        loadsInTime portland "createMockIsochroneData ''bar'' portland"
        "snd (loadIsochrones browser loadsInTime portland ''bar'' (constructor emptyMap))"]
      fresh fresh_load_bar fst_load empty
    by blast
qed

text \<open>
  C10. \<open>loadIsochrones\<close> sets the current location to its argument whatever the cache
  and the rendering engine do, so \<open>getStatistics\<close> for any category then reads the cache
  entry keyed by that location, not by the one \<open>setCurrentLocation\<close> had set.
\<close>

theorem loadIsochrones_overwrites_currentLocation:
  "currentLocation (snd (loadIsochrones h e l poiType (setCurrentLocation l0 m))) = Some l \<and>
   getStatistics h c (snd (loadIsochrones h e l poiType (setCurrentLocation l0 m))) =
     statsOf (isochroneData (snd (loadIsochrones h e l poiType (setCurrentLocation l0 m)))
       (cacheKey h c l))"
  by (simp add: getStatistics_def currentLocation_loadIsochrones statsKey_Some)

end
